theory Spec2Isabelle
  imports Main "HOL-Library.Word"
begin

unbundle bit_operations_syntax

section \<open>JavaScript values the handlers compute with\<close>

text \<open>
  The repository holds two request handlers: the hardened one (the script printed in
  \<^verbatim>\<open>src/README.md\<close>, lines 57 to 223) and the minimal one
  (\<^verbatim>\<open>src/worker.js\<close>). Both are embedded below, function by function, under
  the names the source gives them.

  A JavaScript string is a sequence of code units; a \<^typ>\<open>char\<close> stands for one
  code unit in the range U+0000 to U+00FF. The handlers only tell decimal digits, the
  full stop and the slash from other code units, so a code unit above U+00FF behaves as
  any other character that is none of those.
\<close>

subsection \<open>Numbers\<close>

text \<open>
  Every number the handlers compute is NaN, an infinity or an integer, so the model of
  the IEEE doubles of JavaScript is \<open>number\<close>: \<open>Num i\<close> is the double whose value is
  the integer \<open>i\<close>. Doubles hold every integer of magnitude up to \<open>2 ^ 53\<close>; a larger
  integer is rounded to the nearest double, ties to the even significand, and to an
  infinity from \<open>2 ^ 1024 - 2 ^ 970\<close> on (\<open>round_nat\<close>).
\<close>

datatype number = NaN | Num int | PosInf | NegInf

fun bit_length :: "nat \<Rightarrow> nat" where
  "bit_length n = (if n = 0 then 0 else Suc (bit_length (n div 2)))"

declare bit_length.simps [simp del]

definition round_nat :: "nat \<Rightarrow> number" where
  "round_nat n =
     (if n < 2 ^ 53 then Num (int n)
      else
        let e = bit_length n - 53;
            q = n div 2 ^ e;
            r = n mod 2 ^ e;
            h = 2 ^ (e - 1);
            q' = (if h < r \<or> (r = h \<and> odd q) then q + 1 else q);
            m = q' * 2 ^ e
        in if 2 ^ 1024 \<le> m then PosInf else Num (int m))"

fun js_neg :: "number \<Rightarrow> number" where
  "js_neg NaN = NaN"
| "js_neg (Num i) = Num (- i)"
| "js_neg PosInf = NegInf"
| "js_neg NegInf = PosInf"

definition round_int :: "int \<Rightarrow> number" where
  "round_int i = (if 0 \<le> i then round_nat (nat i) else js_neg (round_nat (nat (- i))))"

text \<open>\<open>a < b\<close>; the source's \<open>a > b\<close> is \<open>js_lt b a\<close>. A comparison with NaN is false.\<close>

fun js_lt :: "number \<Rightarrow> number \<Rightarrow> bool" where
  "js_lt NaN _ = False"
| "js_lt _ NaN = False"
| "js_lt (Num a) (Num b) = (a < b)"
| "js_lt (Num _) PosInf = True"
| "js_lt NegInf (Num _) = True"
| "js_lt NegInf PosInf = True"
| "js_lt PosInf _ = False"
| "js_lt _ NegInf = False"

text \<open>\<open>a === b\<close> on numbers.\<close>

fun js_strict_eq :: "number \<Rightarrow> number \<Rightarrow> bool" where
  "js_strict_eq (Num a) (Num b) = (a = b)"
| "js_strict_eq PosInf PosInf = True"
| "js_strict_eq NegInf NegInf = True"
| "js_strict_eq _ _ = False"

text \<open>\<open>a + b\<close> and \<open>a - b\<close>: the exact sum of two integers, rounded.\<close>

fun js_add :: "number \<Rightarrow> number \<Rightarrow> number" where
  "js_add (Num a) (Num b) = round_int (a + b)"
| "js_add NaN _ = NaN"
| "js_add _ NaN = NaN"
| "js_add PosInf NegInf = NaN"
| "js_add NegInf PosInf = NaN"
| "js_add PosInf _ = PosInf"
| "js_add _ PosInf = PosInf"
| "js_add NegInf _ = NegInf"
| "js_add _ NegInf = NegInf"

definition js_sub :: "number \<Rightarrow> number \<Rightarrow> number" where
  "js_sub a b = js_add a (js_neg b)"

text \<open>
  \<open>2 ** x\<close>. A negative exponent gives a fraction, which \<open>number\<close> does not hold: the
  model covers exponents from 0 on (the source raises 2 to \<open>32 - p\<close> for the prefix
  lengths \<open>p\<close> of its table, all at most 32) and writes NaN below.
\<close>

fun js_pow2 :: "number \<Rightarrow> number" where
  "js_pow2 NaN = NaN"
| "js_pow2 (Num e) = (if 0 \<le> e then round_nat (2 ^ nat e) else NaN)"
| "js_pow2 PosInf = PosInf"
| "js_pow2 NegInf = Num 0"

text \<open>
  The bitwise operators first bring their operands to 32 bits (ToInt32: the integer
  modulo \<open>2 ^ 32\<close>, and 0 for NaN and the infinities) and give a signed 32-bit result;
  \<open>>>>\<close> gives an unsigned one.
\<close>

fun ToInt32 :: "number \<Rightarrow> 32 word" where
  "ToInt32 (Num i) = word_of_int i"
| "ToInt32 _ = 0"

definition js_shl :: "number \<Rightarrow> nat \<Rightarrow> number" where
  "js_shl a k = Num (sint (push_bit (k mod 32) (ToInt32 a)))"

definition js_ushr :: "number \<Rightarrow> nat \<Rightarrow> number" where
  "js_ushr a k = Num (uint (drop_bit (k mod 32) (ToInt32 a)))"

definition js_not :: "number \<Rightarrow> number" where
  "js_not a = Num (sint (NOT (ToInt32 a)))"

definition js_and :: "number \<Rightarrow> number \<Rightarrow> number" where
  "js_and a b = Num (sint (ToInt32 a AND ToInt32 b))"

subsection \<open>Strings and their conversions\<close>

definition is_digit :: "char \<Rightarrow> bool" where
  "is_digit c = (c \<in> set ''0123456789'')"

definition digit_val :: "char \<Rightarrow> nat" where
  "digit_val c = of_char c - 48"

definition dec_value :: "string \<Rightarrow> nat" where
  "dec_value s = foldl (\<lambda>a c. 10 * a + digit_val c) 0 s"

text \<open>The test \<^verbatim>\<open>/^\d+$/.test(s)\<close>: one or more decimal digits and nothing else.\<close>

definition digits_only :: "string \<Rightarrow> bool" where
  "digits_only s = (s \<noteq> [] \<and> list_all is_digit s)"

text \<open>
  \<open>Number(s)\<close> on a string of decimal digits, the only strings the source converts with
  it (line 165 follows the test of line 164; line 209 reads the prefix lengths of the
  table). Other numeric texts (signs, fractions, exponents) are outside the model, which
  writes NaN for them.
\<close>

definition Number :: "string \<Rightarrow> number" where
  "Number s = (if digits_only s then round_nat (dec_value s) else NaN)"

text \<open>
  \<open>parseInt(s, 10)\<close>: leading white space is dropped, then an optional sign, then the
  longest run of decimal digits is read; no digit gives NaN.
\<close>

definition is_white_space :: "char \<Rightarrow> bool" where
  "is_white_space c = (of_char c \<in> {9, 10, 11, 12, 13, 32, 160 :: nat})"

definition parseInt :: "string \<Rightarrow> number" where
  "parseInt s =
     (let t = dropWhile is_white_space s;
          negative = (case t of [] \<Rightarrow> False | c # _ \<Rightarrow> c = CHR ''-'');
          u = (case t of [] \<Rightarrow> [] | c # cs \<Rightarrow> if c = CHR ''+'' \<or> c = CHR ''-'' then cs else t);
          z = takeWhile is_digit u
      in if z = [] then NaN
         else if negative then js_neg (round_nat (dec_value z))
         else round_nat (dec_value z))"

text \<open>\<open>s.split(sep)\<close> for a separator of one character: never an empty list.\<close>

fun js_split :: "char \<Rightarrow> string \<Rightarrow> string list" where
  "js_split sep [] = [[]]"
| "js_split sep (c # cs) =
     (if c = sep then [] # js_split sep cs
      else (case js_split sep cs of [] \<Rightarrow> [[c]] | p # ps \<Rightarrow> (c # p) # ps))"

text \<open>
  The decimal text of a number in a template literal. Integers of magnitude below
  \<open>10 ^ 21\<close> print as their digits (larger ones print with an exponent, which the model
  leaves out; the handler prints numbers from 1 to 65535).
\<close>

fun decimal :: "nat \<Rightarrow> string" where
  "decimal n =
     (if n < 10 then [''0123456789'' ! n]
      else decimal (n div 10) @ [''0123456789'' ! (n mod 10)])"

declare decimal.simps [simp del]

fun ToString :: "number \<Rightarrow> string" where
  "ToString NaN = ''NaN''"
| "ToString (Num i) = (if i < 0 then CHR ''-'' # decimal (nat (- i)) else decimal (nat i))"
| "ToString PosInf = ''Infinity''"
| "ToString NegInf = ''-Infinity''"

section \<open>The hardened handler: validation\<close>

text \<open>\<open>isValidIPv4\<close>, lines 159 to 170; \<open>isValidIPv4_parts\<close> is its loop over the parts.\<close>

fun isValidIPv4_parts :: "string list \<Rightarrow> bool" where
  "isValidIPv4_parts [] = True"
| "isValidIPv4_parts (part # rest) =
     (if \<not> digits_only part then False
      else
        let num = Number part
        in if js_lt num (Num 0) \<or> js_lt (Num 255) num then False
           else if length part > 1 \<and> take 1 part = ''0'' then False
           else isValidIPv4_parts rest)"

definition isValidIPv4 :: "string \<Rightarrow> bool" where
  "isValidIPv4 ip =
     (let parts = js_split (CHR ''.'') ip
      in if length parts \<noteq> 4 then False else isValidIPv4_parts parts)"

text \<open>\<open>ipv4ToInt\<close>, lines 219 to 223.\<close>

definition ipv4ToInt :: "string \<Rightarrow> number" where
  "ipv4ToInt ip =
     js_ushr
       (foldl (\<lambda>acc octet. js_add (js_shl acc 8) (parseInt octet)) (Num 0)
          (js_split (CHR ''.'') ip))
       0"

text \<open>
  \<open>ipInCidr\<close>, lines 202 to 212. The destructuring of line 204 takes the first two parts
  of the split; a missing second part is \<open>undefined\<close>, whose \<open>Number\<close> is NaN. A split
  has at least one part, so the case of no part is never taken.
\<close>

definition ipInCidr :: "string \<Rightarrow> string \<Rightarrow> bool" where
  "ipInCidr ip cidr =
     (case js_split (CHR ''/'') cidr of
        [] \<Rightarrow> False
      | cidr_range # rest \<Rightarrow>
          let prefixLength = (case rest of [] \<Rightarrow> NaN | p # _ \<Rightarrow> Number p);
              ipInt = ipv4ToInt ip;
              rangeInt = ipv4ToInt cidr_range;
              mask = js_not (js_sub (js_pow2 (js_sub (Num 32) prefixLength)) (Num 1))
          in js_strict_eq (js_and ipInt mask) (js_and rangeInt mask))"

text \<open>\<open>isPrivateOrReservedIP\<close>, lines 177 to 193, with its table.\<close>

definition cidrBlocks :: "string list" where
  "cidrBlocks =
     [''0.0.0.0/8'', ''10.0.0.0/8'', ''127.0.0.0/8'', ''169.254.0.0/16'',
      ''172.16.0.0/12'', ''192.0.0.0/24'', ''192.168.0.0/16'', ''255.255.255.255/32'']"

definition isPrivateOrReservedIP :: "string \<Rightarrow> bool" where
  "isPrivateOrReservedIP ip = list_ex (\<lambda>cidr. ipInCidr ip cidr) cidrBlocks"

section \<open>Requests and responses\<close>

text \<open>
  A handler reads one field of its request, the text \<open>url\<close>. The platform's \<open>URL\<close>
  constructor is not code of the repository: the handlers take it as the parameter
  \<open>new_URL\<close>, which gives \<open>None\<close> where the constructor throws its \<open>TypeError\<close>, and
  else the parsed URL with its serialisation \<open>href\<close> and its decoded query pairs in
  order. \<open>searchParams.get(name)\<close> is the value of the first pair of that name, or
  \<open>null\<close> (\<open>None\<close>).
\<close>

record request =
  http_method :: string
  url :: string
  request_headers :: "(string \<times> string) list"
  request_body :: "string option"

record URL =
  href :: string
  searchParams :: "(string \<times> string) list"

type_synonym url_constructor = "string \<Rightarrow> URL option"

definition searchParams_get :: "URL \<Rightarrow> string \<Rightarrow> string option" where
  "searchParams_get u name = map_of (searchParams u) name"

text \<open>
  A response body is \<open>null\<close>, a text, or the text \<open>JSON.stringify\<close> gives for an object
  with the listed string properties. Headers are kept in the order of the object literal
  that holds them.
\<close>

datatype response_body = Null | Text string | JSON_stringify "(string \<times> string) list"

record response =
  status :: nat
  headers :: "(string \<times> string) list"
  body :: response_body

definition new_Response :: "response_body \<Rightarrow> nat \<Rightarrow> (string \<times> string) list \<Rightarrow> response" where
  "new_Response b s h = \<lparr>status = s, headers = h, body = b\<rparr>"

datatype exn = TypeError | RangeError

section \<open>The hardened handler: \<open>fetch\<close>\<close>

text \<open>Lines 67 to 74.\<close>

definition responseHeaders :: "(string \<times> string) list" where
  "responseHeaders =
     [(''Content-Type'', ''application/json; charset=utf-8''),
      (''X-Content-Type-Options'', ''nosniff''),
      (''Content-Security-Policy'', ''default-src 'none';''),
      (''Referrer-Policy'', ''no-referrer''),
      (''X-Frame-Options'', ''DENY''),
      (''Strict-Transport-Security'', ''max-age=31536000; includeSubDomains; preload'')]"

text \<open>
  Lines 58 to 151. The handler has no \<open>try\<close>: what the \<open>URL\<close> constructor throws leaves
  \<open>fetch\<close> (\<open>Inl\<close>). The test \<open>!ip || !port\<close> of line 77 holds when a parameter is
  \<open>null\<close> or the empty string; past it both are non-empty strings.
\<close>

definition fetch :: "url_constructor \<Rightarrow> request \<Rightarrow> exn + response" where
  "fetch new_URL request =
     (case new_URL (url request) of
        None \<Rightarrow> Inl TypeError
      | Some u \<Rightarrow>
          (case (searchParams_get u ''ip'', searchParams_get u ''port'') of
             (Some ip, Some port) \<Rightarrow>
               if ip = [] \<or> port = [] then
                 Inr (new_Response
                        (JSON_stringify [(''error'', ''Missing 'ip' and 'port' parameters.'')])
                        400 responseHeaders)
               else if \<not> isValidIPv4 ip then
                 Inr (new_Response
                        (JSON_stringify
                           [(''error'', '''ip' parameter must be a valid IP address.'')])
                        400 responseHeaders)
               else if isPrivateOrReservedIP ip then
                 Inr (new_Response
                        (JSON_stringify
                           [(''error'',
                             ''Redirecting to private or reserved IP addresses is not allowed.'')])
                        400 responseHeaders)
               else if \<not> digits_only port then
                 Inr (new_Response
                        (JSON_stringify
                           [(''error'', '''port' parameter must be a valid port number.'')])
                        400 responseHeaders)
               else
                 let portNumber = parseInt port
                 in if js_lt portNumber (Num 1) \<or> js_lt (Num 65535) portNumber then
                      Inr (new_Response
                             (JSON_stringify
                                [(''error'', '''port' parameter must be between 1 and 65535.'')])
                             400 responseHeaders)
                    else
                      let steamUrl = ''steam://connect/'' @ ip @ '':'' @ ToString portNumber;
                          redirectHeaders = (''Location'', steamUrl) # responseHeaders
                      in Inr (new_Response Null 301 redirectHeaders)
           | _ \<Rightarrow>
               Inr (new_Response
                      (JSON_stringify [(''error'', ''Missing 'ip' and 'port' parameters.'')])
                      400 responseHeaders)))"

section \<open>The minimal handler: \<open>src/worker.js\<close>\<close>

text \<open>
  The pattern of line 24 has no repetition, so its matcher is a recursion on the
  expression: \<open>re_match r s k\<close> holds when \<open>r\<close> matches a prefix of \<open>s\<close> whose rest the
  continuation \<open>k\<close> accepts, as the backtracking matcher of the language decides it.
\<close>

datatype regex =
  Chr char
  | Range char char
  | Seq regex regex
  | Alt regex regex
  | Opt regex

fun re_match :: "regex \<Rightarrow> string \<Rightarrow> (string \<Rightarrow> bool) \<Rightarrow> bool" where
  "re_match (Chr c) s k = (case s of [] \<Rightarrow> False | x # xs \<Rightarrow> x = c \<and> k xs)"
| "re_match (Range a b) s k =
     (case s of [] \<Rightarrow> False
      | x # xs \<Rightarrow> (of_char a :: nat) \<le> of_char x \<and> (of_char x :: nat) \<le> of_char b \<and> k xs)"
| "re_match (Seq r1 r2) s k = re_match r1 s (\<lambda>t. re_match r2 t k)"
| "re_match (Alt r1 r2) s k = (re_match r1 s k \<or> re_match r2 s k)"
| "re_match (Opt r) s k = (re_match r s k \<or> k s)"

text \<open>\<^verbatim>\<open>(25[0-5]|2[0-4][0-9]|[01]?[0-9][0-9]?)\<close>\<close>

definition octetPattern :: regex where
  "octetPattern =
     Alt (Seq (Chr CHR ''2'') (Seq (Chr CHR ''5'') (Range CHR ''0'' CHR ''5'')))
       (Alt (Seq (Chr CHR ''2'') (Seq (Range CHR ''0'' CHR ''4'') (Range CHR ''0'' CHR ''9'')))
          (Seq (Opt (Range CHR ''0'' CHR ''1''))
             (Seq (Range CHR ''0'' CHR ''9'') (Opt (Range CHR ''0'' CHR ''9'')))))"

definition ipPattern :: regex where
  "ipPattern =
     Seq octetPattern (Seq (Chr CHR ''.'')
       (Seq octetPattern (Seq (Chr CHR ''.'')
          (Seq octetPattern (Seq (Chr CHR ''.'') octetPattern)))))"

text \<open>\<open>ipPattern.test(s)\<close>: the pattern is anchored at both ends.\<close>

definition ipPattern_test :: "string \<Rightarrow> bool" where
  "ipPattern_test s = re_match ipPattern s (\<lambda>rest. rest = [])"

definition isNaN :: "number \<Rightarrow> bool" where
  "isNaN n = (n = NaN)"

text \<open>
  \<open>Response.redirect(target, status)\<close> parses its target with the platform's URL parser
  and puts the serialisation in the \<open>Location\<close> header.
\<close>

definition Response_redirect :: "url_constructor \<Rightarrow> string \<Rightarrow> nat \<Rightarrow> exn + response" where
  "Response_redirect new_URL target s =
     (case new_URL target of
        None \<Rightarrow> Inl TypeError
      | Some parsed \<Rightarrow>
          if s \<notin> {301, 302, 303, 307, 308} then Inl RangeError
          else Inr (new_Response Null s [(''Location'', href parsed)]))"

text \<open>The body of the \<open>try\<close>, lines 4 to 51.\<close>

definition worker_try :: "url_constructor \<Rightarrow> request \<Rightarrow> exn + response" where
  "worker_try new_URL request =
     (case new_URL (url request) of
        None \<Rightarrow> Inl TypeError
      | Some u \<Rightarrow>
          (case (searchParams_get u ''ip'', searchParams_get u ''port'') of
             (Some ip, Some port) \<Rightarrow>
               if ip = [] \<or> port = [] then
                 Inr (new_Response
                        (Text ''Error: Missing one or more required parameters. 'ip' and 'port' are required.'')
                        400 [(''Content-Type'', ''text/plain'')])
               else if \<not> ipPattern_test ip then
                 Inr (new_Response
                        (Text ''Error: 'ip' parameter must be a valid IPv4 address.'')
                        400 [(''Content-Type'', ''text/plain'')])
               else
                 let portNumber = parseInt port
                 in if isNaN portNumber \<or> js_lt portNumber (Num 1)
                       \<or> js_lt (Num 65535) portNumber then
                      Inr (new_Response
                             (Text ''Error: 'port' parameter must be a valid port number between 1 and 65535.'')
                             400 [(''Content-Type'', ''text/plain'')])
                    else
                      let steamUrl = ''steam://connect/'' @ ip @ '':'' @ port
                      in Response_redirect new_URL steamUrl 302
           | _ \<Rightarrow>
               Inr (new_Response
                      (Text ''Error: Missing one or more required parameters. 'ip' and 'port' are required.'')
                      400 [(''Content-Type'', ''text/plain'')])))"

text \<open>
  The handler, lines 2 to 63: the \<open>catch\<close> of lines 53 to 62 answers every exception of
  the body with status 500 (it also writes the exception to the console, which no
  response shows).
\<close>

definition worker_fetch :: "url_constructor \<Rightarrow> request \<Rightarrow> response" where
  "worker_fetch new_URL request =
     (case worker_try new_URL request of
        Inr r \<Rightarrow> r
      | Inl e \<Rightarrow>
          new_Response (Text ''Internal Server Error: An unexpected error occurred.'')
            500 [(''Content-Type'', ''text/plain'')])"

section \<open>The specification's notions\<close>

text \<open>\<open>parts.join(sep)\<close>, the inverse of \<open>js_split\<close>.\<close>

fun js_join :: "char \<Rightarrow> string list \<Rightarrow> string" where
  "js_join sep [] = []"
| "js_join sep [p] = p"
| "js_join sep (p # q # ps) = p @ sep # js_join sep (q # ps)"

text \<open>
  A segment of a dotted quad as the specification words it: not empty, decimal digits
  only, a value from 0 to 255, and no leading zero unless the segment is \<open>0\<close> itself.
\<close>

definition spec_segment :: "string \<Rightarrow> bool" where
  "spec_segment p =
     (p \<noteq> [] \<and> set p \<subseteq> set ''0123456789'' \<and> dec_value p \<le> 255
      \<and> (p = ''0'' \<or> take 1 p \<noteq> ''0''))"

text \<open>Four octets as one unsigned 32-bit number, the first octet most significant.\<close>

definition quad :: "nat \<Rightarrow> nat \<Rightarrow> nat \<Rightarrow> nat \<Rightarrow> nat" where
  "quad a b c d = a * 2 ^ 24 + b * 2 ^ 16 + c * 2 ^ 8 + d"

text \<open>
  The mask of a prefix length: all ones, shifted so that the top \<open>p\<close> bits are set and
  the bottom \<open>32 - p\<close> bits are zero.
\<close>

definition spec_mask :: "nat \<Rightarrow> 32 word" where
  "spec_mask p = push_bit (32 - p) (- 1)"

text \<open>The eight reserved blocks, each a base address and a prefix length.\<close>

definition spec_blocks :: "(nat \<times> nat) list" where
  "spec_blocks =
     [(quad 0 0 0 0, 8), (quad 10 0 0 0, 8), (quad 127 0 0 0, 8), (quad 169 254 0 0, 16),
      (quad 172 16 0 0, 12), (quad 192 0 0 0, 24), (quad 192 168 0 0, 16),
      (quad 255 255 255 255, 32)]"

text \<open>
  The address of a dotted quad: the values of its four segments as one number (and 0
  for a text that does not split into four parts).
\<close>

definition spec_address :: "string \<Rightarrow> nat" where
  "spec_address ip =
     (case map dec_value (js_split (CHR ''.'') ip) of
        [a, b, c, d] \<Rightarrow> quad a b c d
      | _ \<Rightarrow> 0)"

text \<open>\<open>(address & mask) == (blockBase & mask)\<close> on unsigned 32-bit numbers.\<close>

definition spec_in_block :: "nat \<Rightarrow> nat \<times> nat \<Rightarrow> bool" where
  "spec_in_block address block =
     ((of_nat address :: 32 word) AND spec_mask (snd block)
        = of_nat (fst block) AND spec_mask (snd block))"


text \<open>
  The handler's outcome as the specification words it: the checks in their fixed order,
  each with the error it reports; the first check that fails decides, and a request
  that passes them all is redirected.
\<close>

datatype error_kind =
  MissingParameter
  | InvalidAddressSyntax
  | ForbiddenRange
  | InvalidPortSyntax
  | PortOutOfRange

datatype outcome = Redirect string | Rejected error_kind

definition present :: "string option \<Rightarrow> bool" where
  "present v = (v \<noteq> None \<and> v \<noteq> Some [])"

definition text_of :: "string option \<Rightarrow> string" where
  "text_of v = (case v of None \<Rightarrow> [] | Some s \<Rightarrow> s)"

definition spec_port_in_range :: "string \<Rightarrow> bool" where
  "spec_port_in_range port = (1 \<le> dec_value port \<and> dec_value port \<le> 65535)"

definition spec_checks :: "string option \<Rightarrow> string option \<Rightarrow> (error_kind \<times> bool) list" where
  "spec_checks ip port =
     [(MissingParameter, present ip \<and> present port),
      (InvalidAddressSyntax, isValidIPv4 (text_of ip)),
      (ForbiddenRange, \<not> isPrivateOrReservedIP (text_of ip)),
      (InvalidPortSyntax, digits_only (text_of port)),
      (PortOutOfRange, spec_port_in_range (text_of port))]"

definition spec_first_failure :: "string option \<Rightarrow> string option \<Rightarrow> error_kind option" where
  "spec_first_failure ip port =
     map_option fst (List.find (\<lambda>check. \<not> snd check) (spec_checks ip port))"

definition spec_outcome :: "string option \<Rightarrow> string option \<Rightarrow> outcome" where
  "spec_outcome ip port =
     (case spec_first_failure ip port of
        Some kind \<Rightarrow> Rejected kind
      | None \<Rightarrow>
          Redirect (''steam://connect/'' @ text_of ip @ '':'' @ decimal (dec_value (text_of port))))"

text \<open>The message the source gives each error (lines 79, 90, 102, 114 and 128).\<close>

fun error_message :: "error_kind \<Rightarrow> string" where
  "error_message MissingParameter = ''Missing 'ip' and 'port' parameters.''"
| "error_message InvalidAddressSyntax = '''ip' parameter must be a valid IP address.''"
| "error_message ForbiddenRange =
     ''Redirecting to private or reserved IP addresses is not allowed.''"
| "error_message InvalidPortSyntax = '''port' parameter must be a valid port number.''"
| "error_message PortOutOfRange = '''port' parameter must be between 1 and 65535.''"

text \<open>
  The response of an outcome: a redirect is status 301 with the target in \<open>Location\<close>
  and no body; a rejection is status 400 with the error's message in a JSON body.
\<close>

fun respond :: "outcome \<Rightarrow> response" where
  "respond (Redirect target) =
     \<lparr>status = 301, headers = (''Location'', target) # responseHeaders, body = Null\<rparr>"
| "respond (Rejected kind) =
     \<lparr>status = 400, headers = responseHeaders,
      body = JSON_stringify [(''error'', error_message kind)]\<rparr>"

text \<open>A port text the specification accepts: decimal digits only, of value 1 to 65535.\<close>

definition spec_port :: "string \<Rightarrow> bool" where
  "spec_port p =
     (p \<noteq> [] \<and> set p \<subseteq> set ''0123456789'' \<and> 1 \<le> dec_value p \<and> dec_value p \<le> 65535)"

text \<open>
  A request as the examples send it, and the \<open>URL\<close> constructor on the texts the
  examples use: the request URLs with their query pairs and the redirect targets; it is
  \<open>None\<close> on every other text, so on \<open>not a url\<close>, which has no scheme and which the
  platform's constructor rejects.
\<close>

definition GET :: "string \<Rightarrow> request" where
  "GET u = \<lparr>http_method = ''GET'', url = u, request_headers = [], request_body = None\<rparr>"

definition example_query :: "string \<Rightarrow> string \<Rightarrow> string \<times> URL" where
  "example_query ip port =
     (''https://steam-connect.hexane.co/?ip='' @ ip @ ''&port='' @ port,
      \<lparr>href = ''https://steam-connect.hexane.co/?ip='' @ ip @ ''&port='' @ port,
       searchParams = [(''ip'', ip), (''port'', port)]\<rparr>)"

definition example_target :: "string \<Rightarrow> string \<times> URL" where
  "example_target t = (t, \<lparr>href = t, searchParams = []\<rparr>)"

definition example_URL :: url_constructor where
  "example_URL =
     map_of
       [example_query ''51.68.200.55'' ''27015'',
        example_query ''10.0.0.5'' ''27015'',
        example_query ''51.68.200.55'' ''70000'',
        example_query ''51.68.200.055'' ''27015'',
        example_query ''51.68.200.55'' ''00080'',
        example_query ''51.68.200.55'' ''65536'',
        example_query ''51.68.200.55'' ''abc'',
        example_query ''999.1.1.1'' ''abc'',
        (''https://steam-connect.hexane.co/?ip=51.68.200.55'',
         \<lparr>href = ''https://steam-connect.hexane.co/?ip=51.68.200.55'',
          searchParams = [(''ip'', ''51.68.200.55'')]\<rparr>),
        example_target ''steam://connect/51.68.200.55:27015'',
        example_target ''steam://connect/10.0.0.5:27015'']"

section \<open>Numbers: rounding and comparison\<close>

lemma bit_length_bounds: "0 < n \<Longrightarrow> 2 ^ (bit_length n - 1) \<le> n \<and> n < 2 ^ bit_length n"
proof (induction n rule: bit_length.induct)
  case (1 n)
  show ?case
  proof (cases "n div 2 = 0")
    case True
    with "1.prems" have "n = 1" by presburger
    moreover have "bit_length (Suc 0) = Suc 0"
      by (simp add: bit_length.simps[of "Suc 0"] bit_length.simps[of 0])
    ultimately show ?thesis by simp
  next
    case False
    with "1.IH" "1.prems" have IH: "2 ^ (bit_length (n div 2) - 1) \<le> n div 2" "n div 2 < 2 ^ bit_length (n div 2)"
      by auto
    have bl: "bit_length n = Suc (bit_length (n div 2))"
      using "1.prems" by (subst bit_length.simps) simp
    have pos: "0 < bit_length (n div 2)" using False by (subst bit_length.simps) simp
    have "2 * 2 ^ (bit_length (n div 2) - 1) \<le> n" using IH(1) by presburger
    moreover have "2 * 2 ^ (bit_length (n div 2) - 1) = (2::nat) ^ bit_length (n div 2)"
      using pos by (cases "bit_length (n div 2)") auto
    moreover have "n < 2 * 2 ^ bit_length (n div 2)" using IH(2) by presburger
    ultimately show ?thesis by (simp add: bl)
  qed
qed

lemma round_nat_small: "n < 2 ^ 53 \<Longrightarrow> round_nat n = Num (int n)"
  by (simp add: round_nat_def)

lemma round_nat_large:
  assumes "2 ^ 53 \<le> n"
  shows "round_nat n = PosInf \<or> (\<exists>m. round_nat n = Num m \<and> 2 ^ 53 \<le> m)"
proof -
  define e where "e = bit_length n - 53"
  define q where "q = n div 2 ^ e"
  define q' where "q' = (if 2 ^ (e - 1) < n mod 2 ^ e \<or> (n mod 2 ^ e = 2 ^ (e - 1) \<and> odd q) then q + 1 else q)"
  have npos: "0 < n" using assms by (simp add: order_less_le_trans[of 0 "2^53" n])
  have lo: "2 ^ (bit_length n - 1) \<le> n" and hi: "n < 2 ^ bit_length n"
    using bit_length_bounds[OF npos] by auto
  have "(2::nat) ^ 53 < 2 ^ bit_length n" using assms hi by linarith
  then have bl: "53 < bit_length n" by (simp only: power_strict_increasing_iff) 
  then have eq: "bit_length n - 1 = 52 + e" by (simp add: e_def)
  have "2 ^ 52 * 2 ^ e \<le> n" using lo unfolding eq power_add .
  then have "2 ^ 52 \<le> q" unfolding q_def
    by (metis div_le_mono div_mult_self_is_m zero_less_numeral zero_less_power)
  then have q': "2 ^ 52 \<le> q'" by (simp add: q'_def)
  have e1: "1 \<le> e" using bl by (simp add: e_def)
  have "(2::nat) ^ 1 \<le> 2 ^ e" using e1 by (intro power_increasing) simp_all
  then have "(2::nat) ^ 52 * 2 ^ 1 \<le> q' * 2 ^ e"
    by (rule mult_le_mono[OF q'])
  then have m: "2 ^ 53 \<le> q' * 2 ^ e" by simp
  have "round_nat n = (if 2 ^ 1024 \<le> q' * 2 ^ e then PosInf else Num (int (q' * 2 ^ e)))"
    using assms unfolding round_nat_def Let_def e_def q_def q'_def
    by (simp only: linorder_not_less[symmetric] if_False if_True) 
  moreover have "(2::int) ^ 53 \<le> int (q' * 2 ^ e)" using m
    by (metis of_nat_le_iff of_nat_numeral of_nat_power)
  ultimately show ?thesis by auto
qed

lemma round_nat_not_NaN: "round_nat n \<noteq> NaN"
  using round_nat_small[of n] round_nat_large[of n] by (cases "n < 2 ^ 53") auto

lemma js_lt_round_nat_left: "k < 2 ^ 53 \<Longrightarrow> js_lt (round_nat n) (Num k) \<longleftrightarrow> int n < k"
  using round_nat_small[of n] round_nat_large[of n] by (cases "n < 2 ^ 53") auto

lemma js_lt_round_nat_right: "k < 2 ^ 53 \<Longrightarrow> js_lt (Num k) (round_nat n) \<longleftrightarrow> k < int n"
  using round_nat_small[of n] round_nat_large[of n] by (cases "n < 2 ^ 53") auto

section \<open>Splitting\<close>

lemma js_split_not_Nil: "js_split sep s \<noteq> []"
  by (induction s) (auto split: list.splits)

lemma js_split_no_sep: "sep \<notin> set p \<Longrightarrow> js_split sep p = [p]"
  by (induction p) auto

lemma js_split_append:
  "sep \<notin> set p \<Longrightarrow> js_split sep (p @ sep # s) = p # js_split sep s"
  by (induction p) auto

lemma js_join_Cons: "ps \<noteq> [] \<Longrightarrow> js_join sep (p # ps) = p @ sep # js_join sep ps"
  by (cases ps) auto

lemma js_join_split: "js_join sep (js_split sep s) = s"
proof (induction s)
  case Nil
  then show ?case by simp
next
  case (Cons c s)
  show ?case
  proof (cases "c = sep")
    case True
    then show ?thesis using Cons.IH by (simp add: js_join_Cons js_split_not_Nil)
  next
    case False
    obtain p ps where sp: "js_split sep s = p # ps"
      using js_split_not_Nil[of sep s] by (cases "js_split sep s") auto
    show ?thesis using Cons.IH False sp by (cases ps) auto
  qed
qed

lemma js_split_join:
  "ps \<noteq> [] \<Longrightarrow> \<forall>p \<in> set ps. sep \<notin> set p \<Longrightarrow> js_split sep (js_join sep ps) = ps"
proof (induction sep ps rule: js_join.induct)
  case (1 sep)
  then show ?case by simp
next
  case (2 sep p)
  then show ?case by (simp add: js_split_no_sep)
next
  case (3 sep p q ps)
  then show ?case by (simp add: js_split_append)
qed

lemma digits_only_set: "digits_only p \<longleftrightarrow> p \<noteq> [] \<and> set p \<subseteq> set ''0123456789''"
  unfolding digits_only_def is_digit_def list_all_iff by blast

lemma Number_digits: "digits_only p \<Longrightarrow> Number p = round_nat (dec_value p)"
  by (simp add: Number_def)

lemma isValidIPv4_parts_iff: "isValidIPv4_parts ps \<longleftrightarrow> (\<forall>p \<in> set ps. spec_segment p)"
proof (induction ps)
  case Nil
  then show ?case by simp
next
  case (Cons p ps)
  have seg: "spec_segment p \<longleftrightarrow>
      digits_only p \<and> \<not> (js_lt (Number p) (Num 0) \<or> js_lt (Num 255) (Number p))
      \<and> \<not> (length p > 1 \<and> take 1 p = ''0'')"
  proof (cases "digits_only p")
    case True
    then have ne: "p \<noteq> []" by (simp add: digits_only_def)
    have lead: "(p = ''0'' \<or> take 1 p \<noteq> ''0'') \<longleftrightarrow> \<not> (length p > 1 \<and> take 1 p = ''0'')"
      using ne by (cases p) auto
    have dig: "p \<noteq> [] \<and> set p \<subseteq> set ''0123456789''"
      using True digits_only_set[of p] by blast
    have rng: "\<not> (js_lt (Number p) (Num 0) \<or> js_lt (Num 255) (Number p)) \<longleftrightarrow> dec_value p \<le> 255"
      using True by (auto simp: Number_digits js_lt_round_nat_left js_lt_round_nat_right)
    show ?thesis
      unfolding spec_segment_def using True lead rng dig by blast
  next
    case False
    then show ?thesis using digits_only_set[of p] unfolding spec_segment_def by blast
  qed
  show ?case using Cons.IH by (simp add: seg Let_def)
qed

lemma dot_not_digit: "CHR ''.'' \<notin> set ''0123456789''"
  by simp

lemma spec_segment_no_dot: "spec_segment p \<Longrightarrow> CHR ''.'' \<notin> set p"
  unfolding spec_segment_def using dot_not_digit by blast

section \<open>Addresses: parsing, conversion and blocks\<close>

lemma takeWhile_all: "list_all P xs \<Longrightarrow> takeWhile P xs = xs"
  by (induction xs) auto

lemma digit_not_space: "is_digit c \<Longrightarrow> \<not> is_white_space c"
  by (auto simp: is_digit_def is_white_space_def)

lemma digit_not_sign: "is_digit c \<Longrightarrow> c \<noteq> CHR ''+'' \<and> c \<noteq> CHR ''-''"
  by (auto simp: is_digit_def)

lemma parseInt_digits: "digits_only s \<Longrightarrow> parseInt s = round_nat (dec_value s)"
proof -
  assume d: "digits_only s"
  then obtain c cs where s: "s = c # cs" and c: "is_digit c" and all: "list_all is_digit (c # cs)"
    by (cases s) (auto simp: digits_only_def)
  have t: "dropWhile is_white_space s = s" using s c digit_not_space by simp
  have z: "takeWhile is_digit s = s" using all s takeWhile_all by metis
  have u: "(case s of [] \<Rightarrow> [] | c # cs \<Rightarrow> if c = CHR ''+'' \<or> c = CHR ''-'' then cs else s) = s"
    using s digit_not_sign[OF c] by simp
  have ne: "s \<noteq> []" using s by simp
  have n: "(case s of [] \<Rightarrow> False | c # x \<Rightarrow> c = CHR ''-'') = False"
    using s digit_not_sign[OF c] by simp
  show ?thesis
    unfolding parseInt_def t Let_def u z n using ne by simp
qed

lemma sint_shl8:
  assumes "0 \<le> x" "x < 2 ^ 23"
  shows "sint (push_bit 8 (word_of_int x :: 32 word)) = x * 256"
proof -
  have "push_bit 8 (word_of_int x :: 32 word) = word_of_int (x * 256)"
    by (simp add: push_bit_eq_mult)
  moreover have "sint (word_of_int (x * 256) :: 32 word) = x * 256"
  proof -
    have "sint (word_of_int (x * 256) :: 32 word) = signed_take_bit (LENGTH(32) - 1) (x * 256)"
      by (rule sint_sbintrunc')
    also have "\<dots> = x * 256"
      by (rule signed_take_bit_int_eq_self) (use assms in simp_all)
    finally show ?thesis .
  qed
  ultimately show ?thesis by (simp only:)
qed

lemma spec_mask_bits: "bit (spec_mask p) i \<longleftrightarrow> 32 - p \<le> i \<and> i < 32"
  by (auto simp: spec_mask_def bit_simps)

lemma round_int_small: "- (2 ^ 53) < i \<Longrightarrow> i < 2 ^ 53 \<Longrightarrow> round_int i = Num i"
proof (cases "0 \<le> i")
  case True
  assume "i < 2 ^ 53"
  then have "nat i < 2 ^ 53" using True by (simp add: nat_less_iff)
  then show ?thesis using True by (simp add: round_int_def round_nat_small)
next
  case False
  assume "- (2 ^ 53) < i"
  then have "nat (- i) < 2 ^ 53" using False by (simp add: nat_less_iff)
  then show ?thesis using False by (simp add: round_int_def round_nat_small)
qed

lemma js_mask:
  assumes "p \<le> 32"
  shows "ToInt32 (js_not (js_sub (js_pow2 (js_sub (Num 32) (Num (int p)))) (Num 1))) = spec_mask p"
proof -
  have a: "js_sub (Num 32) (Num (int p)) = Num (32 - int p)"
    using assms by (simp add: js_sub_def round_int_small)
  have lt: "(2::nat) ^ (32 - p) < 2 ^ 53"
    by (rule power_strict_increasing) simp_all
  have b: "js_pow2 (Num (32 - int p)) = Num (2 ^ (32 - p))"
    using assms lt by (simp add: round_nat_small nat_diff_distrib')
  have c: "js_sub (Num (2 ^ (32 - p))) (Num 1) = Num (2 ^ (32 - p) - 1)"
  proof -
    have "(2::int) ^ (32 - p) < 2 ^ 53"
      by (rule power_strict_increasing) simp_all
    moreover have "(0::int) < 2 ^ (32 - p)" by simp
    ultimately have "round_int (2 ^ (32 - p) - 1) = Num (2 ^ (32 - p) - 1)"
      by (intro round_int_small) linarith+
    then show ?thesis by (simp add: js_sub_def)
  qed
  have d: "(word_of_int (2 ^ (32 - p) - 1) :: 32 word) = mask (32 - p)"
    by (simp add: mask_eq_exp_minus_1)
  have "NOT (mask (32 - p)) = (push_bit (32 - p) (- 1) :: 32 word)"
    by (rule bit_eqI) (auto simp: bit_simps)
  then show ?thesis
    unfolding a b c by (simp add: js_not_def spec_mask_def mask_eq_exp_minus_1)
qed


lemma js_shl_add_small:
  assumes "0 \<le> x" "x < 2 ^ 23" "0 \<le> k" "k \<le> 255"
  shows "js_add (js_shl (Num x) 8) (Num k) = Num (x * 256 + k)"
proof -
  have "js_shl (Num x) 8 = Num (x * 256)"
    using sint_shl8[OF assms(1,2)] by (simp add: js_shl_def)
  moreover have "round_int (x * 256 + k) = Num (x * 256 + k)"
    by (rule round_int_small) (use assms in simp_all)
  ultimately show ?thesis by simp
qed

lemma js_shl_add_last:
  assumes "0 \<le> x" "x < 2 ^ 24" "0 \<le> k" "k \<le> 255"
  shows "js_ushr (js_add (js_shl (Num x) 8) (Num k)) 0 = Num (x * 256 + k)"
proof -
  define w :: "32 word" where "w = push_bit 8 (word_of_int x)"
  have lo: "- (2 ^ 31) \<le> sint w" and hi: "sint w < 2 ^ 31"
    using sint_greater_eq[of w] sint_less[of w] by simp_all
  have r: "round_int (sint w + k) = Num (sint w + k)"
    by (rule round_int_small) (use lo hi assms in simp_all)
  have "js_add (js_shl (Num x) 8) (Num k) = Num (sint w + k)"
    using r by (simp add: js_shl_def w_def)
  moreover have "(word_of_int (sint w + k) :: 32 word) = word_of_int (x * 256 + k)"
    by (simp add: w_def push_bit_eq_mult)
  moreover have "uint (word_of_int (x * 256 + k) :: 32 word) = x * 256 + k"
  proof -
    have "uint (word_of_int (x * 256 + k) :: 32 word) = take_bit LENGTH(32) (x * 256 + k)"
      by (rule uint_word_of_int_eq)
    also have "\<dots> = x * 256 + k"
      by (rule take_bit_int_eq_self) (use assms in simp_all)
    finally show ?thesis .
  qed
  ultimately show ?thesis by (simp add: js_ushr_def)
qed

lemma spec_segment_digits: "spec_segment p \<Longrightarrow> digits_only p"
  unfolding spec_segment_def using digits_only_set[of p] by blast

lemma spec_segment_le: "spec_segment p \<Longrightarrow> dec_value p \<le> 255"
  by (simp add: spec_segment_def)

lemma parseInt_segment: "spec_segment p \<Longrightarrow> parseInt p = Num (int (dec_value p))"
  using parseInt_digits[OF spec_segment_digits] spec_segment_le[of p]
  by (simp add: round_nat_small)

lemma js_split_quad:
  assumes "spec_segment a" "spec_segment b" "spec_segment c" "spec_segment d"
  shows "js_split (CHR ''.'') (a @ ''.'' @ b @ ''.'' @ c @ ''.'' @ d) = [a, b, c, d]"
proof -
  have "js_split (CHR ''.'') (js_join (CHR ''.'') [a, b, c, d]) = [a, b, c, d]"
    by (rule js_split_join) (use assms in \<open>auto dest: spec_segment_no_dot\<close>)
  then show ?thesis by simp
qed

lemma ipv4ToInt_quad:
  assumes "spec_segment a" "spec_segment b" "spec_segment c" "spec_segment d"
  shows "ipv4ToInt (a @ ''.'' @ b @ ''.'' @ c @ ''.'' @ d)
           = Num (int (quad (dec_value a) (dec_value b) (dec_value c) (dec_value d)))"
proof -
  define A where "A = int (dec_value a)"
  define B where "B = int (dec_value b)"
  define C where "C = int (dec_value c)"
  define D where "D = int (dec_value d)"
  have rng: "0 \<le> A" "A \<le> 255" "0 \<le> B" "B \<le> 255" "0 \<le> C" "C \<le> 255" "0 \<le> D" "D \<le> 255"
    using assms[THEN spec_segment_le] by (simp_all add: A_def B_def C_def D_def)
  have p: "parseInt a = Num A" "parseInt b = Num B" "parseInt c = Num C" "parseInt d = Num D"
    using assms[THEN parseInt_segment] by (simp_all add: A_def B_def C_def D_def)
  have s1: "js_add (js_shl (Num 0) 8) (Num A) = Num A"
    using js_shl_add_small[of 0 A] rng by simp
  have s2: "js_add (js_shl (Num A) 8) (Num B) = Num (A * 256 + B)"
    by (rule js_shl_add_small) (use rng in simp_all)
  have s3: "js_add (js_shl (Num (A * 256 + B)) 8) (Num C) = Num ((A * 256 + B) * 256 + C)"
    by (rule js_shl_add_small) (use rng in simp_all)
  have s4: "js_ushr (js_add (js_shl (Num ((A * 256 + B) * 256 + C)) 8) (Num D)) 0
              = Num (((A * 256 + B) * 256 + C) * 256 + D)"
    by (rule js_shl_add_last) (use rng in simp_all)
  have "ipv4ToInt (a @ ''.'' @ b @ ''.'' @ c @ ''.'' @ d)
          = Num (((A * 256 + B) * 256 + C) * 256 + D)"
    unfolding ipv4ToInt_def js_split_quad[OF assms] foldl.simps p s1 s2 s3 s4 ..
  moreover have "((A * 256 + B) * 256 + C) * 256 + D
      = int (quad (dec_value a) (dec_value b) (dec_value c) (dec_value d))"
    by (simp add: quad_def A_def B_def C_def D_def)
  ultimately show ?thesis by simp
qed


lemma sint_eq_iff: "sint (u :: 32 word) = sint v \<longleftrightarrow> u = v"
  by (auto intro: signed_word_eqI)

lemma ipInCidr_block:
  assumes parts: "js_split (CHR ''/'') cidr = [r, pl]"
    and len: "Number pl = Num (int p)" "p \<le> 32"
    and base: "ipv4ToInt r = Num (int b)"
    and addr: "ipv4ToInt ip = Num (int w)"
  shows "ipInCidr ip cidr \<longleftrightarrow> spec_in_block w (b, p)"
proof -
  define m where "m = js_not (js_sub (js_pow2 (js_sub (Num 32) (Num (int p)))) (Num 1))"
  have m: "ToInt32 m = spec_mask p" unfolding m_def by (rule js_mask[OF len(2)])
  have "ipInCidr ip cidr \<longleftrightarrow> js_strict_eq (js_and (Num (int w)) m) (js_and (Num (int b)) m)"
    unfolding ipInCidr_def parts by (simp add: len base addr m_def Let_def)
  also have "\<dots> \<longleftrightarrow> (of_nat w :: 32 word) AND spec_mask p = of_nat b AND spec_mask p"
    by (simp add: js_and_def m sint_eq_iff)
  finally show ?thesis by (simp add: spec_in_block_def)
qed

lemma ipv4ToInt_bases:
  "ipv4ToInt ''0.0.0.0'' = Num (int (quad 0 0 0 0))"
  "ipv4ToInt ''10.0.0.0'' = Num (int (quad 10 0 0 0))"
  "ipv4ToInt ''127.0.0.0'' = Num (int (quad 127 0 0 0))"
  "ipv4ToInt ''169.254.0.0'' = Num (int (quad 169 254 0 0))"
  "ipv4ToInt ''172.16.0.0'' = Num (int (quad 172 16 0 0))"
  "ipv4ToInt ''192.0.0.0'' = Num (int (quad 192 0 0 0))"
  "ipv4ToInt ''192.168.0.0'' = Num (int (quad 192 168 0 0))"
  "ipv4ToInt ''255.255.255.255'' = Num (int (quad 255 255 255 255))"
  using ipv4ToInt_quad[of "''0''" "''0''" "''0''" "''0''"]
    ipv4ToInt_quad[of "''10''" "''0''" "''0''" "''0''"]
    ipv4ToInt_quad[of "''127''" "''0''" "''0''" "''0''"]
    ipv4ToInt_quad[of "''169''" "''254''" "''0''" "''0''"]
    ipv4ToInt_quad[of "''172''" "''16''" "''0''" "''0''"]
    ipv4ToInt_quad[of "''192''" "''0''" "''0''" "''0''"]
    ipv4ToInt_quad[of "''192''" "''168''" "''0''" "''0''"]
    ipv4ToInt_quad[of "''255''" "''255''" "''255''" "''255''"]
  by (simp_all add: spec_segment_def dec_value_def digit_val_def)

lemma Number_lengths:
  "Number ''8'' = Num (int 8)" "Number ''12'' = Num (int 12)" "Number ''16'' = Num (int 16)"
  "Number ''24'' = Num (int 24)" "Number ''32'' = Num (int 32)"
  by (simp_all add: Number_def digits_only_def is_digit_def dec_value_def digit_val_def
      round_nat_def)

lemma isPrivateOrReservedIP_blocks:
  assumes "ipv4ToInt ip = Num (int w)"
  shows "isPrivateOrReservedIP ip \<longleftrightarrow> list_ex (spec_in_block w) spec_blocks"
proof -
  note blk = ipInCidr_block[OF _ _ _ _ assms]
  have "ipInCidr ip ''0.0.0.0/8'' \<longleftrightarrow> spec_in_block w (quad 0 0 0 0, 8)"
    by (rule blk[OF _ Number_lengths(1) _ ipv4ToInt_bases(1)]) simp_all
  moreover have "ipInCidr ip ''10.0.0.0/8'' \<longleftrightarrow> spec_in_block w (quad 10 0 0 0, 8)"
    by (rule blk[OF _ Number_lengths(1) _ ipv4ToInt_bases(2)]) simp_all
  moreover have "ipInCidr ip ''127.0.0.0/8'' \<longleftrightarrow> spec_in_block w (quad 127 0 0 0, 8)"
    by (rule blk[OF _ Number_lengths(1) _ ipv4ToInt_bases(3)]) simp_all
  moreover have "ipInCidr ip ''169.254.0.0/16'' \<longleftrightarrow> spec_in_block w (quad 169 254 0 0, 16)"
    by (rule blk[OF _ Number_lengths(3) _ ipv4ToInt_bases(4)]) simp_all
  moreover have "ipInCidr ip ''172.16.0.0/12'' \<longleftrightarrow> spec_in_block w (quad 172 16 0 0, 12)"
    by (rule blk[OF _ Number_lengths(2) _ ipv4ToInt_bases(5)]) simp_all
  moreover have "ipInCidr ip ''192.0.0.0/24'' \<longleftrightarrow> spec_in_block w (quad 192 0 0 0, 24)"
    by (rule blk[OF _ Number_lengths(4) _ ipv4ToInt_bases(6)]) simp_all
  moreover have "ipInCidr ip ''192.168.0.0/16'' \<longleftrightarrow> spec_in_block w (quad 192 168 0 0, 16)"
    by (rule blk[OF _ Number_lengths(3) _ ipv4ToInt_bases(7)]) simp_all
  moreover have "ipInCidr ip ''255.255.255.255/32'' \<longleftrightarrow> spec_in_block w (quad 255 255 255 255, 32)"
    by (rule blk[OF _ Number_lengths(5) _ ipv4ToInt_bases(8)]) simp_all
  ultimately show ?thesis
    by (simp only: isPrivateOrReservedIP_def cidrBlocks_def spec_blocks_def
        list_ex_Nil_iff list_ex_Cons_iff)
qed



lemma isValidIPv4_segments:
  assumes "isValidIPv4 s"
  shows "\<exists>a b c d. s = a @ ''.'' @ b @ ''.'' @ c @ ''.'' @ d
        \<and> spec_segment a \<and> spec_segment b \<and> spec_segment c \<and> spec_segment d"
proof -
  from assms have len: "length (js_split (CHR ''.'') s) = 4"
    and ok: "isValidIPv4_parts (js_split (CHR ''.'') s)"
    by (auto simp: isValidIPv4_def Let_def split: if_splits)
  from len obtain a b c d where sp: "js_split (CHR ''.'') s = [a, b, c, d]"
    by (auto simp: length_Suc_conv numeral_eq_Suc)
  have "s = js_join (CHR ''.'') [a, b, c, d]" using js_join_split[of "CHR ''.''" s] sp by simp
  then have "s = a @ ''.'' @ b @ ''.'' @ c @ ''.'' @ d" by simp
  moreover have "spec_segment a \<and> spec_segment b \<and> spec_segment c \<and> spec_segment d"
    using ok sp by (simp add: isValidIPv4_parts_iff)
  ultimately show ?thesis by blast
qed

lemma isValidIPv4_quad:
  assumes "spec_segment a" "spec_segment b" "spec_segment c" "spec_segment d"
  shows "isValidIPv4 (a @ ''.'' @ b @ ''.'' @ c @ ''.'' @ d)"
  unfolding isValidIPv4_def js_split_quad[OF assms] using assms
  by (simp add: isValidIPv4_parts_iff del: isValidIPv4_parts.simps)

lemma spec_address_quad:
  assumes "spec_segment a" "spec_segment b" "spec_segment c" "spec_segment d"
  shows "spec_address (a @ ''.'' @ b @ ''.'' @ c @ ''.'' @ d)
           = quad (dec_value a) (dec_value b) (dec_value c) (dec_value d)"
  unfolding spec_address_def js_split_quad[OF assms] by simp


text \<open>The definitions a concrete request is evaluated with.\<close>

lemmas handler_eval =
  isValidIPv4_def Number_def digits_only_def is_digit_def round_nat_def dec_value_def
  digit_val_def
section \<open>The handler: decimal texts, the port and the outcome\<close>

lemma digit_cases: "(d::nat) < 10 \<Longrightarrow> d \<in> {0, 1, 2, 3, 4, 5, 6, 7, 8, 9}"
  by auto

lemma digit_val_char: "d < 10 \<Longrightarrow> digit_val (''0123456789'' ! d) = (d::nat)"
  by (drule digit_cases) (auto simp: digit_val_def)

lemma is_digit_char: "(d::nat) < 10 \<Longrightarrow> is_digit (''0123456789'' ! d)"
  by (drule digit_cases) (auto simp: is_digit_def)

lemma dec_value_snoc: "dec_value (s @ [c]) = 10 * dec_value s + digit_val c"
  by (simp add: dec_value_def)

lemma dec_value_decimal: "dec_value (decimal n) = n"
proof (induction n rule: decimal.induct)
  case (1 n)
  show ?case
  proof (cases "n < 10")
    case True
    then show ?thesis
      by (subst decimal.simps) (simp add: dec_value_def digit_val_char)
  next
    case False
    have "decimal n = decimal (n div 10) @ [''0123456789'' ! (n mod 10)]"
      using False by (subst decimal.simps) simp
    then show ?thesis
      using 1[OF False] by (simp add: dec_value_snoc digit_val_char)
  qed
qed

lemma digits_decimal: "list_all is_digit (decimal n) \<and> decimal n \<noteq> []"
proof (induction n rule: decimal.induct)
  case (1 n)
  show ?case
  proof (cases "n < 10")
    case True
    then show ?thesis
      by (subst (1 2) decimal.simps) (simp add: is_digit_char)
  next
    case False
    have "decimal n = decimal (n div 10) @ [''0123456789'' ! (n mod 10)]"
      using False by (subst decimal.simps) simp
    then show ?thesis
      using 1[OF False] by (simp add: is_digit_char)
  qed
qed

lemma decimal_canonical: "decimal n = ''0'' \<or> take 1 (decimal n) \<noteq> ''0''"
proof (induction n rule: decimal.induct)
  case (1 n)
  show ?case
  proof (cases "n < 10")
    case True
    have "decimal n = [''0123456789'' ! n]" using True by (subst decimal.simps) simp
    moreover have "n \<in> {0, 1, 2, 3, 4, 5, 6, 7, 8, 9}" using True by auto
    ultimately show ?thesis by auto
  next
    case False
    have d: "decimal n = decimal (n div 10) @ [''0123456789'' ! (n mod 10)]"
      using False by (subst decimal.simps) simp
    have ne: "decimal (n div 10) \<noteq> []" using digits_decimal by blast
    have nz: "decimal (n div 10) \<noteq> ''0''"
    proof
      assume "decimal (n div 10) = ''0''"
      then have "dec_value (decimal (n div 10)) = 0" by (simp add: dec_value_def digit_val_def)
      then show False using False by (simp add: dec_value_decimal)
    qed
    have "take 1 (decimal n) = take 1 (decimal (n div 10))"
      using ne unfolding d by (cases "decimal (n div 10)") auto
    then show ?thesis using 1[OF False] nz by simp
  qed
qed


lemma port_range:
  assumes "digits_only port"
  shows "js_lt (parseInt port) (Num 1) \<or> js_lt (Num 65535) (parseInt port)
           \<longleftrightarrow> \<not> spec_port_in_range port"
  unfolding parseInt_digits[OF assms] spec_port_in_range_def
  by (auto simp: js_lt_round_nat_left js_lt_round_nat_right)

lemma port_text:
  assumes "digits_only port" "spec_port_in_range port"
  shows "ToString (parseInt port) = decimal (dec_value port)"
proof -
  have "dec_value port < 2 ^ 53" using assms(2) by (simp add: spec_port_in_range_def)
  then show ?thesis
    unfolding parseInt_digits[OF assms(1)] by (simp add: round_nat_small)
qed

lemma spec_outcome_cases:
  "spec_outcome ip port =
     (if \<not> (present ip \<and> present port) then Rejected MissingParameter
      else if \<not> isValidIPv4 (text_of ip) then Rejected InvalidAddressSyntax
      else if isPrivateOrReservedIP (text_of ip) then Rejected ForbiddenRange
      else if \<not> digits_only (text_of port) then Rejected InvalidPortSyntax
      else if \<not> spec_port_in_range (text_of port) then Rejected PortOutOfRange
      else Redirect (''steam://connect/'' @ text_of ip @ '':'' @ decimal (dec_value (text_of port))))"
  by (simp add: spec_outcome_def spec_first_failure_def spec_checks_def)

lemma fetch_outcome:
  assumes "new_URL (url request) = Some u"
  shows "fetch new_URL request
           = Inr (respond (spec_outcome (searchParams_get u ''ip'') (searchParams_get u ''port'')))"
proof (cases "searchParams_get u ''ip''")
  case None
  then show ?thesis
    using assms by (simp add: fetch_def spec_outcome_cases present_def new_Response_def)
next
  case ip: (Some ip)
  show ?thesis
  proof (cases "searchParams_get u ''port''")
    case None
    then show ?thesis
      using assms ip by (simp add: fetch_def spec_outcome_cases present_def new_Response_def)
  next
    case port: (Some port)
    show ?thesis
    proof (cases "digits_only port")
      case True
      show ?thesis
        using assms ip port True port_range[OF True] port_text[OF True]
        by (simp add: fetch_def spec_outcome_cases present_def text_of_def new_Response_def
            Let_def del: ToString.simps)
    next
      case False
      then show ?thesis
        using assms ip port
        by (simp add: fetch_def spec_outcome_cases present_def text_of_def new_Response_def)
    qed
  qed
qed

lemma fetch_throws:
  "fetch new_URL request = Inl e \<longleftrightarrow> new_URL (url request) = None \<and> e = TypeError"
proof (cases "new_URL (url request)")
  case None
  then show ?thesis by (auto simp: fetch_def)
next
  case (Some u)
  then show ?thesis using fetch_outcome[of new_URL request u] by simp
qed

lemma spec_port_iff: "spec_port p \<longleftrightarrow> digits_only p \<and> spec_port_in_range p"
  unfolding spec_port_def spec_port_in_range_def using digits_only_set[of p] by blast

lemma respond_shape:
  "(status (respond out) = 301 \<and> body (respond out) = Null
      \<and> (\<exists>target. out = Redirect target
            \<and> map_of (headers (respond out)) ''Location'' = Some target))
   \<or> (status (respond out) = 400
      \<and> (\<exists>kind. out = Rejected kind
            \<and> body (respond out) = JSON_stringify [(''error'', error_message kind)])
      \<and> map_of (headers (respond out)) ''Location'' = None)"
  by (cases out) (simp_all add: responseHeaders_def)

lemma error_message_inj: "error_message j = error_message k \<longleftrightarrow> j = k"
  by (cases j; cases k) simp_all

section \<open>The examples, evaluated\<close>

lemma example_URL_simps:
  "example_URL ''https://steam-connect.hexane.co/?ip=51.68.200.55&port=27015''
     = Some \<lparr>href = ''https://steam-connect.hexane.co/?ip=51.68.200.55&port=27015'',
             searchParams = [(''ip'', ''51.68.200.55''), (''port'', ''27015'')]\<rparr>"
  "example_URL ''https://steam-connect.hexane.co/?ip=10.0.0.5&port=27015''
     = Some \<lparr>href = ''https://steam-connect.hexane.co/?ip=10.0.0.5&port=27015'',
             searchParams = [(''ip'', ''10.0.0.5''), (''port'', ''27015'')]\<rparr>"
  "example_URL ''https://steam-connect.hexane.co/?ip=51.68.200.55&port=70000''
     = Some \<lparr>href = ''https://steam-connect.hexane.co/?ip=51.68.200.55&port=70000'',
             searchParams = [(''ip'', ''51.68.200.55''), (''port'', ''70000'')]\<rparr>"
  "example_URL ''https://steam-connect.hexane.co/?ip=51.68.200.055&port=27015''
     = Some \<lparr>href = ''https://steam-connect.hexane.co/?ip=51.68.200.055&port=27015'',
             searchParams = [(''ip'', ''51.68.200.055''), (''port'', ''27015'')]\<rparr>"
  "example_URL ''https://steam-connect.hexane.co/?ip=51.68.200.55&port=00080''
     = Some \<lparr>href = ''https://steam-connect.hexane.co/?ip=51.68.200.55&port=00080'',
             searchParams = [(''ip'', ''51.68.200.55''), (''port'', ''00080'')]\<rparr>"
  "example_URL ''https://steam-connect.hexane.co/?ip=51.68.200.55&port=65536''
     = Some \<lparr>href = ''https://steam-connect.hexane.co/?ip=51.68.200.55&port=65536'',
             searchParams = [(''ip'', ''51.68.200.55''), (''port'', ''65536'')]\<rparr>"
  "example_URL ''https://steam-connect.hexane.co/?ip=51.68.200.55&port=abc''
     = Some \<lparr>href = ''https://steam-connect.hexane.co/?ip=51.68.200.55&port=abc'',
             searchParams = [(''ip'', ''51.68.200.55''), (''port'', ''abc'')]\<rparr>"
  "example_URL ''https://steam-connect.hexane.co/?ip=999.1.1.1&port=abc''
     = Some \<lparr>href = ''https://steam-connect.hexane.co/?ip=999.1.1.1&port=abc'',
             searchParams = [(''ip'', ''999.1.1.1''), (''port'', ''abc'')]\<rparr>"
  "example_URL ''https://steam-connect.hexane.co/?ip=51.68.200.55''
     = Some \<lparr>href = ''https://steam-connect.hexane.co/?ip=51.68.200.55'',
             searchParams = [(''ip'', ''51.68.200.55'')]\<rparr>"
  "example_URL ''steam://connect/51.68.200.55:27015''
     = Some \<lparr>href = ''steam://connect/51.68.200.55:27015'', searchParams = []\<rparr>"
  "example_URL ''steam://connect/10.0.0.5:27015''
     = Some \<lparr>href = ''steam://connect/10.0.0.5:27015'', searchParams = []\<rparr>"
  "example_URL ''not a url'' = None"
  by (simp_all add: example_URL_def example_query_def example_target_def)

lemma example_addresses:
  "isValidIPv4 ''51.68.200.55''" "\<not> isPrivateOrReservedIP ''51.68.200.55''"
  "isValidIPv4 ''10.0.0.5''" "isPrivateOrReservedIP ''10.0.0.5''"
  "\<not> isValidIPv4 ''51.68.200.055''" "\<not> isValidIPv4 ''999.1.1.1''"
proof -
  show "isValidIPv4 ''51.68.200.55''" "isValidIPv4 ''10.0.0.5''"
    "\<not> isValidIPv4 ''51.68.200.055''" "\<not> isValidIPv4 ''999.1.1.1''"
    by (simp_all add: handler_eval)
  have s: "spec_segment ''51''" "spec_segment ''68''" "spec_segment ''200''" "spec_segment ''55''"
    "spec_segment ''10''" "spec_segment ''0''" "spec_segment ''5''"
    by (simp_all add: spec_segment_def dec_value_def digit_val_def)
  have "ipv4ToInt ''51.68.200.55'' = Num (int 860145719)"
    using ipv4ToInt_quad[OF s(1-4)] by (simp add: quad_def dec_value_def digit_val_def)
  from isPrivateOrReservedIP_blocks[OF this]
  show "\<not> isPrivateOrReservedIP ''51.68.200.55''"
    by (simp add: spec_blocks_def spec_in_block_def spec_mask_def quad_def mask_eq_exp_minus_1)
  have "ipv4ToInt ''10.0.0.5'' = Num (int 167772165)"
    using ipv4ToInt_quad[OF s(5) s(6) s(6) s(7)] by (simp add: quad_def dec_value_def digit_val_def)
  from isPrivateOrReservedIP_blocks[OF this]
  show "isPrivateOrReservedIP ''10.0.0.5''"
    by (simp add: spec_blocks_def spec_in_block_def spec_mask_def quad_def mask_eq_exp_minus_1)
qed

lemma example_ports:
  "spec_port ''27015''" "spec_port ''00080''" "\<not> spec_port ''70000''" "\<not> spec_port ''abc''"
  "\<not> spec_port ''65536''"
  "dec_value ''00080'' = 80" "decimal 80 = ''80''" "dec_value ''27015'' = 27015"
  "decimal 27015 = ''27015''"
  by (simp_all add: spec_port_def dec_value_def digit_val_def decimal.simps)


lemma example_outcomes:
  "spec_outcome (Some ''51.68.200.55'') (Some ''27015'')
     = Redirect ''steam://connect/51.68.200.55:27015''"
  "spec_outcome (Some ''10.0.0.5'') (Some ''27015'') = Rejected ForbiddenRange"
  "spec_outcome (Some ''51.68.200.55'') (Some ''70000'') = Rejected PortOutOfRange"
  "spec_outcome (Some ''51.68.200.55'') (Some ''65536'') = Rejected PortOutOfRange"
  "spec_outcome (Some ''51.68.200.55'') (Some ''abc'') = Rejected InvalidPortSyntax"
  "spec_outcome (Some ''51.68.200.055'') (Some ''27015'') = Rejected InvalidAddressSyntax"
  "spec_outcome (Some ''999.1.1.1'') (Some ''abc'') = Rejected InvalidAddressSyntax"
  "spec_outcome (Some ''51.68.200.55'') None = Rejected MissingParameter"
  using example_ports
  by (simp_all add: spec_outcome_cases present_def text_of_def example_addresses spec_port_iff
      digits_only_def is_digit_def)

lemma example_requests:
  "url (GET t) = t"
  "searchParams_get \<lparr>href = h, searchParams = [(''ip'', i), (''port'', p)]\<rparr> ''ip'' = Some i"
  "searchParams_get \<lparr>href = h, searchParams = [(''ip'', i), (''port'', p)]\<rparr> ''port'' = Some p"
  "searchParams_get \<lparr>href = h, searchParams = [(''ip'', i)]\<rparr> ''ip'' = Some i"
  "searchParams_get \<lparr>href = h, searchParams = [(''ip'', i)]\<rparr> ''port'' = None"
  by (simp_all add: GET_def searchParams_get_def)

lemma example_fetch:
  "fetch example_URL (GET ''https://steam-connect.hexane.co/?ip=51.68.200.55&port=27015'')
     = Inr (respond (Redirect ''steam://connect/51.68.200.55:27015''))"
  "fetch example_URL (GET ''https://steam-connect.hexane.co/?ip=10.0.0.5&port=27015'')
     = Inr (respond (Rejected ForbiddenRange))"
  "fetch example_URL (GET ''https://steam-connect.hexane.co/?ip=51.68.200.55'')
     = Inr (respond (Rejected MissingParameter))"
  using fetch_outcome[of example_URL "GET ''https://steam-connect.hexane.co/?ip=51.68.200.55&port=27015''"]
    fetch_outcome[of example_URL "GET ''https://steam-connect.hexane.co/?ip=10.0.0.5&port=27015''"]
    fetch_outcome[of example_URL "GET ''https://steam-connect.hexane.co/?ip=51.68.200.55''"]
  by (simp_all add: example_URL_simps example_requests example_outcomes)

section \<open>The minimal handler\<close>

lemma Response_redirect_302:
  "Response_redirect new_URL target 302 =
     (case new_URL target of
        None \<Rightarrow> Inl TypeError
      | Some parsed \<Rightarrow> Inr \<lparr>status = 302, headers = [(''Location'', href parsed)], body = Null\<rparr>)"
  by (simp add: Response_redirect_def new_Response_def split: option.splits)

lemma worker_try_shape:
  assumes "worker_try new_URL request = Inr w"
  shows "status w = 302 \<and> body w = Null \<and> (\<exists>t. headers w = [(''Location'', t)])
       \<or> status w = 400 \<and> (\<exists>t. body w = Text t) \<and> headers w = [(''Content-Type'', ''text/plain'')]"
  using assms
  by (auto simp: worker_try_def Response_redirect_302 new_Response_def Let_def
      split: option.splits if_splits)

lemma worker_fetch_shape:
  "status (worker_fetch new_URL request) = 302 \<and> body (worker_fetch new_URL request) = Null
       \<and> (\<exists>t. headers (worker_fetch new_URL request) = [(''Location'', t)])
   \<or> (status (worker_fetch new_URL request) = 400 \<or> status (worker_fetch new_URL request) = 500)
       \<and> (\<exists>t. body (worker_fetch new_URL request) = Text t)
       \<and> headers (worker_fetch new_URL request) = [(''Content-Type'', ''text/plain'')]"
proof (cases "worker_try new_URL request")
  case (Inl e)
  then show ?thesis by (simp add: worker_fetch_def new_Response_def)
next
  case (Inr w)
  then have "worker_fetch new_URL request = w" by (simp add: worker_fetch_def)
  then show ?thesis using worker_try_shape[OF Inr] by auto
qed

lemma worker_fetch_caught:
  "worker_try new_URL request = Inl e \<Longrightarrow>
     worker_fetch new_URL request =
       \<lparr>status = 500, headers = [(''Content-Type'', ''text/plain'')],
        body = Text ''Internal Server Error: An unexpected error occurred.''\<rparr>"
  by (simp add: worker_fetch_def new_Response_def)

lemma worker_try_no_URL: "new_URL (url request) = None \<Longrightarrow> worker_try new_URL request = Inl TypeError"
  by (simp add: worker_try_def)

lemma example_patterns:
  "ipPattern_test ''10.0.0.5''" "ipPattern_test ''51.68.200.55''"
  by (simp_all add: ipPattern_test_def ipPattern_def octetPattern_def)

lemma example_parseInt: "parseInt ''27015'' = Num 27015"
  using parseInt_digits[of "''27015''"]
  by (simp add: digits_only_def is_digit_def dec_value_def digit_val_def round_nat_def)

lemma worker_try_redirect:
  assumes "new_URL (url request) = Some u"
    and "searchParams_get u ''ip'' = Some ip" and "searchParams_get u ''port'' = Some ''27015''"
    and "ipPattern_test ip"
  shows "worker_try new_URL request
           = Response_redirect new_URL (''steam://connect/'' @ ip @ '':'' @ ''27015'') 302"
proof -
  have "ip \<noteq> []" using assms(4)
    by (auto simp: ipPattern_test_def ipPattern_def octetPattern_def)
  then show ?thesis
    using assms by (simp add: worker_try_def example_parseInt isNaN_def)
qed


lemma example_worker:
  "worker_fetch example_URL (GET ''https://steam-connect.hexane.co/?ip=10.0.0.5&port=27015'')
     = \<lparr>status = 302, headers = [(''Location'', ''steam://connect/10.0.0.5:27015'')], body = Null\<rparr>"
  "worker_fetch example_URL (GET ''https://steam-connect.hexane.co/?ip=51.68.200.55&port=27015'')
     = \<lparr>status = 302, headers = [(''Location'', ''steam://connect/51.68.200.55:27015'')],
        body = Null\<rparr>"
  "worker_fetch example_URL (GET ''not a url'')
     = \<lparr>status = 500, headers = [(''Content-Type'', ''text/plain'')],
        body = Text ''Internal Server Error: An unexpected error occurred.''\<rparr>"
proof -
  show "worker_fetch example_URL (GET ''https://steam-connect.hexane.co/?ip=10.0.0.5&port=27015'')
     = \<lparr>status = 302, headers = [(''Location'', ''steam://connect/10.0.0.5:27015'')], body = Null\<rparr>"
    using worker_try_redirect[of example_URL
        "GET ''https://steam-connect.hexane.co/?ip=10.0.0.5&port=27015''" _ "''10.0.0.5''"]
    by (simp add: example_URL_simps example_requests example_patterns Response_redirect_302
        worker_fetch_def)
  show "worker_fetch example_URL (GET ''https://steam-connect.hexane.co/?ip=51.68.200.55&port=27015'')
     = \<lparr>status = 302, headers = [(''Location'', ''steam://connect/51.68.200.55:27015'')],
        body = Null\<rparr>"
    using worker_try_redirect[of example_URL
        "GET ''https://steam-connect.hexane.co/?ip=51.68.200.55&port=27015''" _ "''51.68.200.55''"]
    by (simp add: example_URL_simps example_requests example_patterns Response_redirect_302
        worker_fetch_def)
  show "worker_fetch example_URL (GET ''not a url'')
     = \<lparr>status = 500, headers = [(''Content-Type'', ''text/plain'')],
        body = Text ''Internal Server Error: An unexpected error occurred.''\<rparr>"
    by (rule worker_fetch_caught[of _ _ TypeError], rule worker_try_no_URL)
      (simp add: example_requests example_URL_simps)
qed
section \<open>The range classifier\<close>

text \<open>
  C1. For every string that \<open>isValidIPv4\<close> accepts, \<open>ipv4ToInt\<close> gives the address as an
  unsigned 32-bit number with the first octet most significant, and
  \<open>isPrivateOrReservedIP\<close> holds exactly when \<open>(address & mask) == (blockBase & mask)\<close>
  for one of the eight blocks 0.0.0.0/8, 10.0.0.0/8, 127.0.0.0/8, 169.254.0.0/16,
  172.16.0.0/12, 192.0.0.0/24, 192.168.0.0/16 and 255.255.255.255/32. For every prefix
  length \<open>p\<close> up to 32 the mask \<open>~(2 ** (32 - p) - 1)\<close> of the source, read as 32 bits,
  is the mask with exactly the top \<open>p\<close> bits set: all ones for 32, zero for 0.
\<close>

theorem range_classifier:
  assumes "isValidIPv4 ip"
  shows "ipv4ToInt ip = Num (int (spec_address ip)) \<and> spec_address ip < 2 ^ 32
    \<and> (isPrivateOrReservedIP ip
         \<longleftrightarrow> (\<exists>block \<in> set spec_blocks. spec_in_block (spec_address ip) block))
    \<and> (\<forall>p \<le> 32.
          ToInt32 (js_not (js_sub (js_pow2 (js_sub (Num 32) (Num (int p)))) (Num 1))) = spec_mask p
          \<and> (\<forall>i. bit (spec_mask p) i \<longleftrightarrow> 32 - p \<le> i \<and> i < 32))"
proof -
  from isValidIPv4_segments[OF assms] obtain a b c d
    where ip: "ip = a @ ''.'' @ b @ ''.'' @ c @ ''.'' @ d"
      and seg: "spec_segment a" "spec_segment b" "spec_segment c" "spec_segment d"
    by blast
  have adr: "spec_address ip = quad (dec_value a) (dec_value b) (dec_value c) (dec_value d)"
    unfolding ip by (rule spec_address_quad[OF seg])
  have conv: "ipv4ToInt ip = Num (int (spec_address ip))"
    unfolding adr unfolding ip by (rule ipv4ToInt_quad[OF seg])
  have bound: "spec_address ip < 2 ^ 32"
    using seg[THEN spec_segment_le] unfolding adr quad_def by simp
  have cls: "isPrivateOrReservedIP ip
      \<longleftrightarrow> (\<exists>block \<in> set spec_blocks. spec_in_block (spec_address ip) block)"
    using isPrivateOrReservedIP_blocks[OF conv] by (simp only: list_ex_iff)
  have msk: "\<forall>p \<le> 32.
          ToInt32 (js_not (js_sub (js_pow2 (js_sub (Num 32) (Num (int p)))) (Num 1))) = spec_mask p
          \<and> (\<forall>i. bit (spec_mask p) i \<longleftrightarrow> 32 - p \<le> i \<and> i < 32)"
    using js_mask spec_mask_bits by blast
  show ?thesis using conv bound cls msk by blast
qed


theorem range_classifier_witness:
  "isValidIPv4 ''10.0.0.5'' \<and> ipv4ToInt ''10.0.0.5'' = Num 167772165
   \<and> isPrivateOrReservedIP ''10.0.0.5''
   \<and> isValidIPv4 ''51.68.200.55'' \<and> ipv4ToInt ''51.68.200.55'' = Num 860145719
   \<and> \<not> isPrivateOrReservedIP ''51.68.200.55''
   \<and> ToInt32 (js_not (js_sub (js_pow2 (js_sub (Num 32) (Num 32))) (Num 1))) = - 1
   \<and> ToInt32 (js_not (js_sub (js_pow2 (js_sub (Num 32) (Num 0))) (Num 1))) = 0"
proof -
  have v1: "isValidIPv4 ''10.0.0.5''" by (simp add: handler_eval)
  have v2: "isValidIPv4 ''51.68.200.55''" by (simp add: handler_eval)
  have a1: "spec_address ''10.0.0.5'' = 167772165"
    by (simp add: spec_address_def quad_def dec_value_def digit_val_def)
  have a2: "spec_address ''51.68.200.55'' = 860145719"
    by (simp add: spec_address_def quad_def dec_value_def digit_val_def)
  have b1: "\<exists>block \<in> set spec_blocks. spec_in_block 167772165 block"
    by (simp add: spec_blocks_def spec_in_block_def spec_mask_def quad_def mask_eq_exp_minus_1)
  have b2: "\<not> (\<exists>block \<in> set spec_blocks. spec_in_block 860145719 block)"
    by (simp add: spec_blocks_def spec_in_block_def spec_mask_def quad_def mask_eq_exp_minus_1)
  have m: "spec_mask 32 = - 1" "spec_mask 0 = 0"
    by (simp_all add: spec_mask_def mask_eq_exp_minus_1)
  note c1 = range_classifier[OF v1, unfolded a1] and c2 = range_classifier[OF v2, unfolded a2]
  from c1 have msk:
    "p \<le> 32 \<Longrightarrow>
       ToInt32 (js_not (js_sub (js_pow2 (js_sub (Num 32) (Num (int p)))) (Num 1))) = spec_mask p"
    for p by blast
  have mask32: "ToInt32 (js_not (js_sub (js_pow2 (js_sub (Num 32) (Num 32))) (Num 1))) = - 1"
    by (rule msk[OF order_refl, unfolded of_nat_numeral m])
  have mask0: "ToInt32 (js_not (js_sub (js_pow2 (js_sub (Num 32) (Num 0))) (Num 1))) = 0"
    by (rule msk[OF le0, unfolded semiring_1_class.of_nat_0 m])
  have i1: "ipv4ToInt ''10.0.0.5'' = Num 167772165"
    using c1[THEN conjunct1] by (simp only: of_nat_numeral)
  have i2: "ipv4ToInt ''51.68.200.55'' = Num 860145719"
    using c2[THEN conjunct1] by (simp only: of_nat_numeral)
  have p1: "isPrivateOrReservedIP ''10.0.0.5''"
    by (rule iffD2[OF c1[THEN conjunct2, THEN conjunct2, THEN conjunct1] b1])
  have p2: "\<not> isPrivateOrReservedIP ''51.68.200.55''"
    using c2[THEN conjunct2, THEN conjunct2, THEN conjunct1] b2 by (simp only: not_False_eq_True)
  show ?thesis
    by (intro conjI v1 v2 i1 i2 p1 p2 mask32 mask0)
qed

section \<open>The redirect\<close>

text \<open>
  C2. A request whose \<open>ip\<close> passes \<open>isValidIPv4\<close> and is not private or reserved, and
  whose \<open>port\<close> is decimal digits only with a value from 1 to 65535, is answered with
  status 301, no body, and the \<open>Location\<close> header \<open>steam://connect/\<close>, the \<open>ip\<close> text as
  it came, a colon and the port in canonical decimal: the digits of its value, without
  leading zeros.
\<close>

theorem fetch_redirects:
  assumes "new_URL (url request) = Some u"
    and "searchParams_get u ''ip'' = Some ip"
    and "searchParams_get u ''port'' = Some port"
    and "isValidIPv4 ip" and "\<not> isPrivateOrReservedIP ip"
    and "spec_port port"
  shows "fetch new_URL request =
           Inr \<lparr>status = 301,
                headers = (''Location'', ''steam://connect/'' @ ip @ '':'' @ decimal (dec_value port))
                          # responseHeaders,
                body = Null\<rparr>
         \<and> dec_value (decimal (dec_value port)) = dec_value port
         \<and> decimal (dec_value port) \<noteq> []
         \<and> set (decimal (dec_value port)) \<subseteq> set ''0123456789''
         \<and> (decimal (dec_value port) = ''0'' \<or> take 1 (decimal (dec_value port)) \<noteq> ''0'')"
proof -
  have ip: "ip \<noteq> []" using assms(4) by (auto simp: isValidIPv4_def)
  have port: "digits_only port" "spec_port_in_range port" "port \<noteq> []"
    using assms(6) by (auto simp: spec_port_iff digits_only_def)
  have "spec_outcome (Some ip) (Some port)
          = Redirect (''steam://connect/'' @ ip @ '':'' @ decimal (dec_value port))"
    using assms(4,5) ip port by (simp add: spec_outcome_cases present_def text_of_def)
  then have resp: "fetch new_URL request =
           Inr \<lparr>status = 301,
                headers = (''Location'', ''steam://connect/'' @ ip @ '':'' @ decimal (dec_value port))
                          # responseHeaders,
                body = Null\<rparr>"
    using fetch_outcome[of new_URL request u] assms(1-3) by simp
  have dig: "digits_only (decimal (dec_value port))"
    using digits_decimal[of "dec_value port"] by (simp add: digits_only_def)
  show ?thesis
    using resp dec_value_decimal[of "dec_value port"] dig[unfolded digits_only_set]
      decimal_canonical[of "dec_value port"]
    by blast
qed



theorem fetch_redirects_witness:
  "fetch example_URL (GET ''https://steam-connect.hexane.co/?ip=51.68.200.55&port=00080'')
     = Inr \<lparr>status = 301,
            headers = (''Location'', ''steam://connect/51.68.200.55:80'') # responseHeaders,
            body = Null\<rparr>"
proof -
  have "fetch example_URL (GET ''https://steam-connect.hexane.co/?ip=51.68.200.55&port=00080'')
     = Inr \<lparr>status = 301,
            headers = (''Location'',
              ''steam://connect/'' @ ''51.68.200.55'' @ '':'' @ decimal (dec_value ''00080''))
              # responseHeaders,
            body = Null\<rparr>"
    by (rule fetch_redirects[THEN conjunct1,
            of _ _ "\<lparr>href = ''https://steam-connect.hexane.co/?ip=51.68.200.55&port=00080'',
               searchParams = [(''ip'', ''51.68.200.55''), (''port'', ''00080'')]\<rparr>",
            OF _ _ _ example_addresses(1,2) example_ports(2)])
      (simp_all add: GET_def example_URL_simps searchParams_get_def)
  then show ?thesis by (simp add: example_ports)
qed

section \<open>Exceptions\<close>

text \<open>
  C3, as the claim states it, fails on the hardened handler: it has no \<open>try\<close>, so on a
  request whose URL the \<open>URL\<close> constructor rejects the constructor's \<open>TypeError\<close> leaves
  \<open>fetch\<close> and no response is returned.
\<close>

theorem fetch_uncaught_counterexample:
  "fetch example_URL (GET ''not a url'') = Inl TypeError"
  by (simp add: fetch_throws example_requests example_URL_simps)

text \<open>
  C3, amended. For every request whose URL the \<open>URL\<close> constructor accepts, the hardened
  handler returns a response, of status 301 or 400, and raises nothing. The minimal
  handler returns a response for every request: every exception of its body, so that
  of the \<open>URL\<close> constructor, is answered with status 500 and a generic plain text.
\<close>

theorem fetch_responds:
  "(new_URL (url request) \<noteq> None \<longrightarrow>
      (\<exists>resp. fetch new_URL request = Inr resp \<and> (status resp = 301 \<or> status resp = 400)))
   \<and> (\<forall>e. worker_try new_URL request = Inl e \<longrightarrow>
         worker_fetch new_URL request =
           \<lparr>status = 500, headers = [(''Content-Type'', ''text/plain'')],
            body = Text ''Internal Server Error: An unexpected error occurred.''\<rparr>)
   \<and> (new_URL (url request) = None \<longrightarrow> status (worker_fetch new_URL request) = 500)"
proof -
  have a: "\<exists>resp. fetch new_URL request = Inr resp \<and> (status resp = 301 \<or> status resp = 400)"
    if "new_URL (url request) \<noteq> None"
  proof -
    from that obtain u where u: "new_URL (url request) = Some u" by blast
    show ?thesis
      using fetch_outcome[of new_URL request u] u
        respond_shape[of "spec_outcome (searchParams_get u ''ip'') (searchParams_get u ''port'')"]
      by auto
  qed
  have c: "worker_fetch new_URL request =
           \<lparr>status = 500, headers = [(''Content-Type'', ''text/plain'')],
            body = Text ''Internal Server Error: An unexpected error occurred.''\<rparr>"
    if "worker_try new_URL request = Inl e" for e
    using that by (rule worker_fetch_caught)
  have d: "status (worker_fetch new_URL request) = 500" if "new_URL (url request) = None"
    using worker_fetch_caught[of new_URL request TypeError] worker_try_no_URL[of new_URL request] that
    by simp
  show ?thesis using a c d by blast
qed

theorem fetch_responds_witness:
  "(\<exists>resp. fetch example_URL (GET ''https://steam-connect.hexane.co/?ip=51.68.200.55&port=27015'')
             = Inr resp \<and> (status resp = 301 \<or> status resp = 400))
   \<and> status (worker_fetch example_URL (GET ''not a url'')) = 500"
proof -
  have a: "\<exists>resp. fetch example_URL (GET ''https://steam-connect.hexane.co/?ip=51.68.200.55&port=27015'')
             = Inr resp \<and> (status resp = 301 \<or> status resp = 400)"
    using fetch_responds[of example_URL
        "GET ''https://steam-connect.hexane.co/?ip=51.68.200.55&port=27015''", THEN conjunct1]
    by (simp add: example_requests example_URL_simps)
  have b: "status (worker_fetch example_URL (GET ''not a url'')) = 500"
    using fetch_responds[of example_URL "GET ''not a url''",
        THEN conjunct2, THEN conjunct2]
    by (simp add: example_requests example_URL_simps)
  show ?thesis by (intro conjI a b)
qed
section \<open>The address validator\<close>

text \<open>
  C4. \<open>isValidIPv4\<close> accepts a string exactly when it is four segments joined by full
  stops, each segment non-empty, of decimal digits only, of value 0 to 255, and without
  a leading zero unless it is \<open>0\<close> itself. The function returns a truth value only: the
  string it is given is not changed.
\<close>

theorem isValidIPv4_iff:
  "isValidIPv4 s \<longleftrightarrow>
     (\<exists>a b c d. s = a @ ''.'' @ b @ ''.'' @ c @ ''.'' @ d
        \<and> spec_segment a \<and> spec_segment b \<and> spec_segment c \<and> spec_segment d)"
  using isValidIPv4_segments[of s] isValidIPv4_quad by blast

theorem isValidIPv4_iff_witness:
  "isValidIPv4 ''51.68.200.55'' \<and> spec_segment ''51'' \<and> spec_segment ''68''
     \<and> spec_segment ''200'' \<and> spec_segment ''55''
     \<and> \<not> spec_segment ''055'' \<and> \<not> isValidIPv4 ''51.68.200.055''"
proof -
  have segs: "spec_segment ''51''" "spec_segment ''68''" "spec_segment ''200''" "spec_segment ''55''"
    by (simp_all add: spec_segment_def dec_value_def digit_val_def)
  have parts: "''51.68.200.55'' = ''51'' @ ''.'' @ ''68'' @ ''.'' @ ''200'' @ ''.'' @ ''55''"
    by simp
  have v: "isValidIPv4 ''51.68.200.55''"
    using isValidIPv4_iff [of "''51.68.200.55''"] segs parts by blast
  have n1: "\<not> spec_segment ''055''"
    by (simp add: spec_segment_def)
  have n2: "\<not> isValidIPv4 ''51.68.200.055''"
    by (simp add: handler_eval)
  show ?thesis
    by (intro conjI v segs n1 n2)
qed

section \<open>The port validator\<close>

text \<open>
  C5. With a valid public address, the handler redirects (status 301) exactly when the
  port text is one or more decimal digits and nothing else, of a value from 1 to 65535,
  and answers 400 otherwise; the texts \<open>0\<close>, \<open>65536\<close>, \<open>-1\<close>, \<open>abc\<close> and the empty text
  are all rejected.
\<close>

theorem fetch_port_accepted:
  assumes "new_URL (url request) = Some u"
    and "searchParams_get u ''ip'' = Some ip"
    and "isValidIPv4 ip" and "\<not> isPrivateOrReservedIP ip"
    and "searchParams_get u ''port'' = Some p"
  shows "\<exists>resp. fetch new_URL request = Inr resp
           \<and> status resp = (if spec_port p then 301 else 400)
           \<and> (p \<in> set [''0'', ''65536'', ''-1'', ''abc'', ''''] \<longrightarrow> status resp = 400)"
proof -
  have ip: "ip \<noteq> []" using assms(3) by (auto simp: isValidIPv4_def)
  have "spec_first_failure (Some ip) (Some p) = None \<longleftrightarrow> spec_port p"
    using assms(3,4) ip
    by (auto simp: spec_first_failure_def spec_checks_def present_def text_of_def spec_port_iff
        digits_only_def)
  then have st: "status (respond (spec_outcome (Some ip) (Some p))) = (if spec_port p then 301 else 400)"
    by (auto simp: spec_outcome_def split: option.splits)
  have bad: "\<not> spec_port ''0''" "\<not> spec_port ''65536''" "\<not> spec_port ''-1''"
    "\<not> spec_port ''abc''" "\<not> spec_port ''''"
    by (simp_all add: spec_port_def dec_value_def digit_val_def)
  have "p \<in> set [''0'', ''65536'', ''-1'', ''abc'', ''''] \<longrightarrow> \<not> spec_port p"
    using bad by auto
  then have "p \<in> set [''0'', ''65536'', ''-1'', ''abc'', '''']
      \<longrightarrow> status (respond (spec_outcome (Some ip) (Some p))) = 400"
    unfolding st by presburger
  moreover have "fetch new_URL request = Inr (respond (spec_outcome (Some ip) (Some p)))"
    using fetch_outcome[of new_URL request u] assms(1,2,5) by simp
  ultimately show ?thesis using st by blast
qed

theorem fetch_port_accepted_witness:
  "(\<exists>resp. fetch example_URL (GET ''https://steam-connect.hexane.co/?ip=51.68.200.55&port=27015'')
            = Inr resp \<and> status resp = 301)
   \<and> (\<exists>resp. fetch example_URL (GET ''https://steam-connect.hexane.co/?ip=51.68.200.55&port=65536'')
            = Inr resp \<and> status resp = 400)
   \<and> (\<exists>resp. fetch example_URL (GET ''https://steam-connect.hexane.co/?ip=51.68.200.55&port=abc'')
            = Inr resp \<and> status resp = 400)"
proof -
  note ok = fetch_port_accepted[where new_URL = example_URL and ip = "''51.68.200.55''",
      OF _ _ example_addresses(1,2)]
  have a: "\<exists>resp. fetch example_URL (GET ''https://steam-connect.hexane.co/?ip=51.68.200.55&port=27015'')
            = Inr resp \<and> status resp = 301"
    using ok[where p = "''27015''" and
        request = "GET ''https://steam-connect.hexane.co/?ip=51.68.200.55&port=27015''"]
    by (simp add: example_URL_simps example_requests example_ports)
  have b: "\<exists>resp. fetch example_URL (GET ''https://steam-connect.hexane.co/?ip=51.68.200.55&port=65536'')
            = Inr resp \<and> status resp = 400"
    using ok[where p = "''65536''" and
        request = "GET ''https://steam-connect.hexane.co/?ip=51.68.200.55&port=65536''"]
    by (simp add: example_URL_simps example_requests example_ports)
  have c: "\<exists>resp. fetch example_URL (GET ''https://steam-connect.hexane.co/?ip=51.68.200.55&port=abc'')
            = Inr resp \<and> status resp = 400"
    using ok[where p = "''abc''" and
        request = "GET ''https://steam-connect.hexane.co/?ip=51.68.200.55&port=abc''"]
    by (simp add: example_URL_simps example_requests example_ports)
  show ?thesis by (intro conjI a b c)
qed

section \<open>The order of the checks\<close>

text \<open>
  C6, as the claim states it for every request, fails: on a request whose URL the \<open>URL\<close>
  constructor rejects the handler runs none of its checks and returns neither a
  redirect nor a structured error, not even the error of the presence check, though the
  request carries no parameter: the constructor's \<open>TypeError\<close> leaves \<open>fetch\<close>.
\<close>

theorem fetch_checks_counterexample:
  "fetch example_URL (GET ''not a url'') = Inl TypeError
   \<and> fetch example_URL (GET ''not a url'') \<noteq> Inr (respond (Rejected MissingParameter))"
proof -
  have "fetch example_URL (GET ''not a url'') = Inl TypeError"
    by (simp add: fetch_throws example_requests example_URL_simps)
  then show ?thesis by (simp del: respond.simps)
qed

text \<open>
  C6, amended. For every request whose URL the \<open>URL\<close> constructor accepts, the response
  is the one of the first check that fails in the order presence, address syntax,
  reserved range, port format, port range: status 400 with that check's message in a
  JSON body, each check having a message of its own. So an invalid address is reported
  whatever the port is, and the range check rejects only addresses that are
  syntactically valid. A request that passes every check is redirected. A response is
  either a redirect (status 301, no body, a \<open>Location\<close> header) or an error (status 400, a
  JSON body, no \<open>Location\<close> header), never a mix.
\<close>

theorem fetch_checks_in_order:
  assumes "new_URL (url request) = Some u"
    and "ip = searchParams_get u ''ip''" and "port = searchParams_get u ''port''"
  shows "fetch new_URL request = Inr (respond (spec_outcome ip port))
    \<and> (present ip \<and> present port \<and> \<not> isValidIPv4 (text_of ip)
          \<longrightarrow> spec_outcome ip port = Rejected InvalidAddressSyntax)
    \<and> (spec_outcome ip port = Rejected ForbiddenRange \<longrightarrow> isValidIPv4 (text_of ip))
    \<and> (\<forall>j k. error_message j = error_message k \<longrightarrow> j = k)
    \<and> (\<exists>resp. fetch new_URL request = Inr resp
          \<and> (status resp = 301 \<and> body resp = Null
                \<and> (\<exists>target. spec_outcome ip port = Redirect target
                      \<and> map_of (headers resp) ''Location'' = Some target)
              \<or> status resp = 400
                \<and> (\<exists>kind. spec_outcome ip port = Rejected kind
                      \<and> body resp = JSON_stringify [(''error'', error_message kind)])
                \<and> map_of (headers resp) ''Location'' = None))"
proof -
  have f: "fetch new_URL request = Inr (respond (spec_outcome ip port))"
    unfolding assms(2,3) using assms(1) by (rule fetch_outcome[of new_URL request u])
  have a: "present ip \<and> present port \<and> \<not> isValidIPv4 (text_of ip)
          \<longrightarrow> spec_outcome ip port = Rejected InvalidAddressSyntax"
    by (simp add: spec_outcome_cases)
  have b: "spec_outcome ip port = Rejected ForbiddenRange \<longrightarrow> isValidIPv4 (text_of ip)"
    by (simp add: spec_outcome_cases split: if_splits)
  have c: "\<forall>j k. error_message j = error_message k \<longrightarrow> j = k"
    using error_message_inj by blast
  show ?thesis
    using f a b c respond_shape[of "spec_outcome ip port"] by blast
qed

theorem fetch_checks_in_order_witness:
  "fetch example_URL (GET ''https://steam-connect.hexane.co/?ip=999.1.1.1&port=abc'')
     = Inr (respond (Rejected InvalidAddressSyntax))
   \<and> fetch example_URL (GET ''https://steam-connect.hexane.co/?ip=51.68.200.055&port=27015'')
     = Inr (respond (Rejected InvalidAddressSyntax))
   \<and> fetch example_URL (GET ''https://steam-connect.hexane.co/?ip=10.0.0.5&port=27015'')
     = Inr (respond (Rejected ForbiddenRange))
   \<and> fetch example_URL (GET ''https://steam-connect.hexane.co/?ip=51.68.200.55&port=70000'')
     = Inr (respond (Rejected PortOutOfRange))
   \<and> fetch example_URL (GET ''https://steam-connect.hexane.co/?ip=51.68.200.55'')
     = Inr (respond (Rejected MissingParameter))
   \<and> fetch example_URL (GET ''https://steam-connect.hexane.co/?ip=51.68.200.55&port=27015'')
     = Inr (respond (Redirect ''steam://connect/51.68.200.55:27015''))"
proof -
  have a: "fetch example_URL (GET ''https://steam-connect.hexane.co/?ip=999.1.1.1&port=abc'')
     = Inr (respond (Rejected InvalidAddressSyntax))"
    using fetch_checks_in_order[where new_URL = example_URL and request = "GET ''https://steam-connect.hexane.co/?ip=999.1.1.1&port=abc''",
        OF _ refl refl, THEN conjunct1]
    by (simp add: example_URL_simps example_requests example_outcomes)
  have b: "fetch example_URL (GET ''https://steam-connect.hexane.co/?ip=51.68.200.055&port=27015'')
     = Inr (respond (Rejected InvalidAddressSyntax))"
    using fetch_checks_in_order[where new_URL = example_URL and request = "GET ''https://steam-connect.hexane.co/?ip=51.68.200.055&port=27015''",
        OF _ refl refl, THEN conjunct1]
    by (simp add: example_URL_simps example_requests example_outcomes)
  have c: "fetch example_URL (GET ''https://steam-connect.hexane.co/?ip=10.0.0.5&port=27015'')
     = Inr (respond (Rejected ForbiddenRange))"
    using fetch_checks_in_order[where new_URL = example_URL and request = "GET ''https://steam-connect.hexane.co/?ip=10.0.0.5&port=27015''",
        OF _ refl refl, THEN conjunct1]
    by (simp add: example_URL_simps example_requests example_outcomes)
  have d: "fetch example_URL (GET ''https://steam-connect.hexane.co/?ip=51.68.200.55&port=70000'')
     = Inr (respond (Rejected PortOutOfRange))"
    using fetch_checks_in_order[where new_URL = example_URL and request = "GET ''https://steam-connect.hexane.co/?ip=51.68.200.55&port=70000''",
        OF _ refl refl, THEN conjunct1]
    by (simp add: example_URL_simps example_requests example_outcomes)
  have e: "fetch example_URL (GET ''https://steam-connect.hexane.co/?ip=51.68.200.55'')
     = Inr (respond (Rejected MissingParameter))"
    using fetch_checks_in_order[where new_URL = example_URL and request = "GET ''https://steam-connect.hexane.co/?ip=51.68.200.55''",
        OF _ refl refl, THEN conjunct1]
    by (simp add: example_URL_simps example_requests example_outcomes)
  have f: "fetch example_URL (GET ''https://steam-connect.hexane.co/?ip=51.68.200.55&port=27015'')
     = Inr (respond (Redirect ''steam://connect/51.68.200.55:27015''))"
    using fetch_checks_in_order[where new_URL = example_URL and request = "GET ''https://steam-connect.hexane.co/?ip=51.68.200.55&port=27015''",
        OF _ refl refl, THEN conjunct1]
    by (simp add: example_URL_simps example_requests example_outcomes)
  show ?thesis by (intro conjI a b c d e f)
qed

section \<open>The security headers\<close>

text \<open>
  C7. Every response of the hardened handler, the redirect and each error alike, carries
  the five security headers: \<open>X-Content-Type-Options: nosniff\<close>,
  \<open>Content-Security-Policy: default-src 'none';\<close>, \<open>Referrer-Policy: no-referrer\<close>,
  \<open>X-Frame-Options: DENY\<close> and \<open>Strict-Transport-Security\<close> with a max-age of one year
  and \<open>includeSubDomains\<close>.
\<close>

theorem fetch_security_headers:
  assumes "fetch new_URL request = Inr resp"
  shows "map_of (headers resp) ''X-Content-Type-Options'' = Some ''nosniff''
    \<and> map_of (headers resp) ''Content-Security-Policy'' = Some ''default-src 'none';''
    \<and> map_of (headers resp) ''Referrer-Policy'' = Some ''no-referrer''
    \<and> map_of (headers resp) ''X-Frame-Options'' = Some ''DENY''
    \<and> map_of (headers resp) ''Strict-Transport-Security''
          = Some ''max-age=31536000; includeSubDomains; preload''
    \<and> (status resp = 301 \<or> status resp = 400)"
proof -
  from assms obtain u where u: "new_URL (url request) = Some u"
    by (cases "new_URL (url request)") (auto simp: fetch_def)
  define out where "out = spec_outcome (searchParams_get u ''ip'') (searchParams_get u ''port'')"
  have "resp = respond out"
    using fetch_outcome[of new_URL request u] u assms by (simp add: out_def)
  then show ?thesis
    by (cases out) (simp_all add: responseHeaders_def)
qed

theorem fetch_security_headers_witness:
  "map_of (headers (respond (Redirect ''steam://connect/51.68.200.55:27015'')))
       ''X-Content-Type-Options'' = Some ''nosniff''
   \<and> map_of (headers (respond (Redirect ''steam://connect/51.68.200.55:27015'')))
       ''Strict-Transport-Security'' = Some ''max-age=31536000; includeSubDomains; preload''
   \<and> status (respond (Redirect ''steam://connect/51.68.200.55:27015'')) = 301
   \<and> map_of (headers (respond (Rejected ForbiddenRange))) ''X-Frame-Options'' = Some ''DENY''
   \<and> map_of (headers (respond (Rejected ForbiddenRange))) ''Referrer-Policy''
       = Some ''no-referrer''
   \<and> map_of (headers (respond (Rejected ForbiddenRange))) ''Content-Security-Policy''
       = Some ''default-src 'none';''
   \<and> status (respond (Rejected ForbiddenRange)) = 400"
proof -
  note a = fetch_security_headers[OF example_fetch(1)]
  note b = fetch_security_headers[OF example_fetch(2)]
  have s1: "status (respond (Redirect ''steam://connect/51.68.200.55:27015'')) = 301"
    and s2: "status (respond (Rejected ForbiddenRange)) = 400"
    by simp_all
  show ?thesis
    using a b s1 s2 by blast
qed

section \<open>The two handlers\<close>

text \<open>
  C8. The handlers differ. On a request with \<open>ip=10.0.0.5\<close> and \<open>port=27015\<close> the hardened
  handler answers 400 with the JSON error of the range check, while the minimal handler
  redirects with status 302 (where the platform parses the redirect target) and in no
  case answers 400; so the two responses are never equal. In general the hardened
  handler redirects with 301 and reports errors as JSON with status 400; the minimal
  handler redirects with 302 and reports errors as plain text.
\<close>

theorem handlers_diverge:
  assumes "new_URL (url request) = Some u"
    and "searchParams_get u ''ip'' = Some ''10.0.0.5''"
    and "searchParams_get u ''port'' = Some ''27015''"
  shows "fetch new_URL request = Inr (respond (Rejected ForbiddenRange))
    \<and> (\<forall>parsed. new_URL ''steam://connect/10.0.0.5:27015'' = Some parsed \<longrightarrow>
          worker_fetch new_URL request
            = \<lparr>status = 302, headers = [(''Location'', href parsed)], body = Null\<rparr>)
    \<and> status (worker_fetch new_URL request) \<noteq> 400
    \<and> fetch new_URL request \<noteq> Inr (worker_fetch new_URL request)
    \<and> (\<forall>r resp. fetch new_URL r = Inr resp \<longrightarrow>
          status resp = 301 \<and> body resp = Null
          \<or> status resp = 400
            \<and> (\<exists>kind. body resp = JSON_stringify [(''error'', error_message kind)])
            \<and> map_of (headers resp) ''Content-Type'' = Some ''application/json; charset=utf-8'')
    \<and> (\<forall>r. status (worker_fetch new_URL r) = 302 \<and> body (worker_fetch new_URL r) = Null
          \<or> (status (worker_fetch new_URL r) = 400 \<or> status (worker_fetch new_URL r) = 500)
            \<and> (\<exists>t. body (worker_fetch new_URL r) = Text t)
            \<and> map_of (headers (worker_fetch new_URL r)) ''Content-Type'' = Some ''text/plain'')"
proof -
  have f: "fetch new_URL request = Inr (respond (Rejected ForbiddenRange))"
    using fetch_outcome[of new_URL request u] assms by (simp add: example_outcomes)
  have t: "worker_try new_URL request
      = Response_redirect new_URL ''steam://connect/10.0.0.5:27015'' 302"
    using worker_try_redirect[of new_URL request u "''10.0.0.5''"] assms example_patterns(1)
    by simp
  have w: "worker_fetch new_URL request
            = \<lparr>status = 302, headers = [(''Location'', href parsed)], body = Null\<rparr>"
    if "new_URL ''steam://connect/10.0.0.5:27015'' = Some parsed" for parsed
    using that by (simp add: worker_fetch_def t Response_redirect_302)
  have s: "status (worker_fetch new_URL request) \<noteq> 400"
    by (cases "new_URL ''steam://connect/10.0.0.5:27015''")
      (simp_all add: worker_fetch_def t Response_redirect_302 new_Response_def)
  have ne: "fetch new_URL request \<noteq> Inr (worker_fetch new_URL request)"
  proof
    assume "fetch new_URL request = Inr (worker_fetch new_URL request)"
    then have "worker_fetch new_URL request = respond (Rejected ForbiddenRange)"
      using f by simp
    then have "status (worker_fetch new_URL request) = 400" by simp
    then show False using s by simp
  qed
  have h: "status resp = 301 \<and> body resp = Null
          \<or> status resp = 400
            \<and> (\<exists>kind. body resp = JSON_stringify [(''error'', error_message kind)])
            \<and> map_of (headers resp) ''Content-Type'' = Some ''application/json; charset=utf-8''"
    if r: "fetch new_URL r = Inr resp" for r resp
  proof -
    from r obtain v where v: "new_URL (url r) = Some v"
      by (cases "new_URL (url r)") (auto simp: fetch_def)
    define out where "out = spec_outcome (searchParams_get v ''ip'') (searchParams_get v ''port'')"
    have "resp = respond out" using fetch_outcome[of new_URL r v] v r by (simp add: out_def)
    then show ?thesis by (cases out) (auto simp: responseHeaders_def)
  qed
  have m: "status (worker_fetch new_URL r) = 302 \<and> body (worker_fetch new_URL r) = Null
          \<or> (status (worker_fetch new_URL r) = 400 \<or> status (worker_fetch new_URL r) = 500)
            \<and> (\<exists>t. body (worker_fetch new_URL r) = Text t)
            \<and> map_of (headers (worker_fetch new_URL r)) ''Content-Type'' = Some ''text/plain''"
    for r
    using worker_fetch_shape[of new_URL r] by auto
  show ?thesis using f w s ne h m by blast
qed

theorem handlers_diverge_witness:
  "fetch example_URL (GET ''https://steam-connect.hexane.co/?ip=10.0.0.5&port=27015'')
     = Inr \<lparr>status = 400, headers = responseHeaders,
            body = JSON_stringify
              [(''error'', ''Redirecting to private or reserved IP addresses is not allowed.'')]\<rparr>
   \<and> worker_fetch example_URL (GET ''https://steam-connect.hexane.co/?ip=10.0.0.5&port=27015'')
     = \<lparr>status = 302, headers = [(''Location'', ''steam://connect/10.0.0.5:27015'')], body = Null\<rparr>
   \<and> fetch example_URL (GET ''https://steam-connect.hexane.co/?ip=51.68.200.55&port=27015'')
     = Inr \<lparr>status = 301,
            headers = (''Location'', ''steam://connect/51.68.200.55:27015'') # responseHeaders,
            body = Null\<rparr>
   \<and> worker_fetch example_URL (GET ''https://steam-connect.hexane.co/?ip=51.68.200.55&port=27015'')
     = \<lparr>status = 302, headers = [(''Location'', ''steam://connect/51.68.200.55:27015'')],
        body = Null\<rparr>"
proof -
  note d = handlers_diverge[of example_URL
      "GET ''https://steam-connect.hexane.co/?ip=10.0.0.5&port=27015''"
      "\<lparr>href = ''https://steam-connect.hexane.co/?ip=10.0.0.5&port=27015'',
        searchParams = [(''ip'', ''10.0.0.5''), (''port'', ''27015'')]\<rparr>"]
  have a: "fetch example_URL (GET ''https://steam-connect.hexane.co/?ip=10.0.0.5&port=27015'')
     = Inr \<lparr>status = 400, headers = responseHeaders,
            body = JSON_stringify
              [(''error'', ''Redirecting to private or reserved IP addresses is not allowed.'')]\<rparr>"
    using d[THEN conjunct1] by (simp add: example_requests example_URL_simps)
  have b: "worker_fetch example_URL (GET ''https://steam-connect.hexane.co/?ip=10.0.0.5&port=27015'')
     = \<lparr>status = 302, headers = [(''Location'', ''steam://connect/10.0.0.5:27015'')], body = Null\<rparr>"
    using d[THEN conjunct2, THEN conjunct1] by (simp add: example_requests example_URL_simps)
  have c: "fetch example_URL (GET ''https://steam-connect.hexane.co/?ip=51.68.200.55&port=27015'')
     = Inr \<lparr>status = 301,
            headers = (''Location'', ''steam://connect/51.68.200.55:27015'') # responseHeaders,
            body = Null\<rparr>"
    using example_fetch(1) by simp
  show ?thesis by (intro conjI a b c example_worker(2))
qed

section \<open>The port's number at the range check\<close>

text \<open>
  C10. A port text of decimal digits only never parses to NaN, and for such a text the
  two comparisons of line 126 reject exactly the values outside 1 to 65535, however long
  the text is (a value too large for a double rounds to a larger double or to infinity,
  which is above 65535). So the handler redirects only when the port text is all digits
  and denotes an integer from 1 to 65535. NaN itself would pass both comparisons, which
  is why the test of line 112 comes first.
\<close>

theorem port_check_sound:
  "(digits_only port \<longrightarrow>
      \<not> isNaN (parseInt port)
      \<and> (js_lt (parseInt port) (Num 1) \<or> js_lt (Num 65535) (parseInt port)
           \<longleftrightarrow> \<not> (1 \<le> dec_value port \<and> dec_value port \<le> 65535)))
   \<and> (fetch new_URL request = Inr resp \<and> status resp = 301 \<longrightarrow>
        (\<exists>u p. new_URL (url request) = Some u \<and> searchParams_get u ''port'' = Some p
           \<and> digits_only p \<and> \<not> isNaN (parseInt p)
           \<and> 1 \<le> dec_value p \<and> dec_value p \<le> 65535))
   \<and> \<not> (js_lt NaN (Num 1) \<or> js_lt (Num 65535) NaN)"
proof -
  have nan: "digits_only p \<Longrightarrow> \<not> isNaN (parseInt p)" for p
    by (simp add: isNaN_def parseInt_digits round_nat_not_NaN)
  have a: "digits_only port \<longrightarrow>
      \<not> isNaN (parseInt port)
      \<and> (js_lt (parseInt port) (Num 1) \<or> js_lt (Num 65535) (parseInt port)
           \<longleftrightarrow> \<not> (1 \<le> dec_value port \<and> dec_value port \<le> 65535))"
    using nan[of port] port_range[of port] by (simp add: spec_port_in_range_def)
  have b: "\<exists>u p. new_URL (url request) = Some u \<and> searchParams_get u ''port'' = Some p
           \<and> digits_only p \<and> \<not> isNaN (parseInt p)
           \<and> 1 \<le> dec_value p \<and> dec_value p \<le> 65535"
    if r: "fetch new_URL request = Inr resp" and s: "status resp = 301"
  proof -
    from r obtain u where u: "new_URL (url request) = Some u"
      by (cases "new_URL (url request)") (auto simp: fetch_def)
    define ip where "ip = searchParams_get u ''ip''"
    define po where "po = searchParams_get u ''port''"
    have "resp = respond (spec_outcome ip po)"
      using fetch_outcome[of new_URL request u] u r by (simp add: ip_def po_def)
    with s have none: "spec_first_failure ip po = None"
      by (auto simp: spec_outcome_def split: option.splits)
    then have "present po \<and> digits_only (text_of po) \<and> spec_port_in_range (text_of po)"
      by (auto simp: spec_first_failure_def spec_checks_def split: if_splits)
    then obtain p where "po = Some p" "digits_only p" "spec_port_in_range p"
      by (cases po) (auto simp: present_def text_of_def)
    then show ?thesis
      using u nan[of p] by (auto simp: po_def spec_port_in_range_def)
  qed
  show ?thesis using a b by simp
qed

theorem port_check_sound_witness:
  "\<not> isNaN (parseInt ''9999999999999999999999999'')
   \<and> (js_lt (parseInt ''9999999999999999999999999'') (Num 1)
        \<or> js_lt (Num 65535) (parseInt ''9999999999999999999999999''))
   \<and> (\<exists>u p. example_URL ''https://steam-connect.hexane.co/?ip=51.68.200.55&port=27015'' = Some u
         \<and> searchParams_get u ''port'' = Some p \<and> digits_only p \<and> \<not> isNaN (parseInt p)
         \<and> 1 \<le> dec_value p \<and> dec_value p \<le> 65535)"
proof -
  have d: "digits_only ''9999999999999999999999999''"
    by (simp add: digits_only_def is_digit_def)
  have v: "dec_value ''9999999999999999999999999'' = 9999999999999999999999999"
    by (simp add: dec_value_def digit_val_def)
  note a = port_check_sound[where port = "''9999999999999999999999999''",
      THEN conjunct1, rule_format, OF d, unfolded v]
  have b: "\<exists>u p. example_URL ''https://steam-connect.hexane.co/?ip=51.68.200.55&port=27015'' = Some u
         \<and> searchParams_get u ''port'' = Some p \<and> digits_only p \<and> \<not> isNaN (parseInt p)
         \<and> 1 \<le> dec_value p \<and> dec_value p \<le> 65535"
    using port_check_sound[where new_URL = example_URL
        and request = "GET ''https://steam-connect.hexane.co/?ip=51.68.200.55&port=27015''"
        and resp = "respond (Redirect ''steam://connect/51.68.200.55:27015'')",
        THEN conjunct2, THEN conjunct1] example_fetch(1)
    by (simp add: example_requests)
  show ?thesis using a b by simp
qed

end
